theory Spec2Isabelle
  imports Main "HOL-Library.Word" "HOL-Library.Sublist"
begin

section \<open>JavaScript values and strings\<close>

text \<open>
  A JavaScript string is a sequence of UTF-16 code units; \<open>length\<close> counts code units,
  as \<^verbatim>\<open>query.length\<close> does.
\<close>

type_synonym jsstring = "16 word list"

type_synonym history = "(jsstring \<times> jsstring) list"

text \<open>
  The values a caller can pass where the code expects a string. Only \<open>JString\<close> has
  \<^verbatim>\<open>typeof v === 'string'\<close>.
\<close>

datatype jsvalue =
    JUndefined
  | JNull
  | JBool bool
  | JNumber int
  | JString jsstring
  | JObject

section \<open>The Python bridge (services/python/bridge.js)\<close>

subsection \<open>Data\<close>

type_synonym pid = nat

text \<open>
  One entry of \<^verbatim>\<open>requestQueue\<close>. The field \<open>rid\<close> stands for the identity of the
  JavaScript object (the code compares requests with \<^verbatim>\<open>===\<close>); it is the number of
  requests created before this one.
\<close>

record request =
  rid :: nat
  query :: jsstring
  userId :: jsstring
  conversationHistory :: history

text \<open>
  What \<^verbatim>\<open>JSON.parse(message)\<close> gives for one line of worker output, as far as the handler
  looks at it: a parse failure, the value \<^verbatim>\<open>null\<close> (reading a property of it throws), or
  a value with the truthiness of \<^verbatim>\<open>data.success\<close>, whether \<^verbatim>\<open>data.message === 'Ready'\<close>,
  \<^verbatim>\<open>data.error?.message\<close>, and the fields \<^verbatim>\<open>answer\<close> and \<^verbatim>\<open>contexts\<close> that the queue
  service reads from a result.
\<close>

record payload =
  answer :: jsstring
  contexts :: "jsstring list"

datatype message =
    Unparsable
  | JsonNull
  | Json (success: bool) (saysReady: bool) (errorMessage: "jsstring option") (body: payload)

datatype rejection =
    PythonError "jsstring option"  \<comment> \<open>the worker answered with \<^verbatim>\<open>success\<close> falsy\<close>
  | ProcessCrashed                 \<comment> \<open>\<^verbatim>\<open>'Python process crashed'\<close>\<close>
  | ExecutionTimeout nat           \<comment> \<open>\<^verbatim>\<open>'Python execution timeout'\<close>, with \<^verbatim>\<open>this.timeout\<close>\<close>
  | SendThrew                      \<comment> \<open>the exception of \<^verbatim>\<open>this.shell.send\<close>\<close>

text \<open>The observable actions of the bridge, in the order it performs them.\<close>

datatype action =
    Spawned pid                     \<comment> \<open>\<^verbatim>\<open>new PythonShell(...)\<close>\<close>
  | Killed pid                      \<comment> \<open>\<^verbatim>\<open>this.shell.kill()\<close>\<close>
  | Dequeued request                \<comment> \<open>\<^verbatim>\<open>this.requestQueue.shift()\<close>\<close>
  | Sent pid request                \<comment> \<open>\<^verbatim>\<open>this.shell.send(payload)\<close> returned\<close>
  | Resolved request pid message    \<comment> \<open>\<^verbatim>\<open>currentRequest.resolve(data)\<close>, data read from process pid\<close>
  | Rejected request rejection      \<comment> \<open>a call of \<^verbatim>\<open>request.reject\<close>\<close>
  | Abandoned request               \<comment> \<open>the slot was cleared and the handler threw before settling\<close>

text \<open>
  The fields of \<^verbatim>\<open>PythonBridge\<close> that the request path uses, followed by the state of its
  environment: how many worker processes were created (process \<open>p\<close> exists iff
  \<open>p < spawned\<close>), the processes whose input pipe is gone (\<^verbatim>\<open>send\<close> throws for them), the
  pending \<^verbatim>\<open>setTimeout(() => this._initShell(), 1000)\<close> and \<^verbatim>\<open>setImmediate\<close> callbacks, the
  armed request timers, the number of request objects created, and the actions so far.
\<close>

record bridge =
  shell :: "pid option"
  requestQueue :: "request list"
  isProcessing :: bool
  isReady :: bool
  currentRequest :: "request option"
  timeout :: nat
  maxRetries :: nat
  spawned :: nat
  brokenPipes :: "pid list"
  restartTimers :: nat
  immediates :: nat
  requestTimers :: "nat list"
  requestsCreated :: nat
  trace :: "action list"

subsection \<open>Operations\<close>

definition initShell :: "bridge \<Rightarrow> bridge" where
  "initShell b =
     (let b1 = (case shell b of
                  Some p \<Rightarrow> b\<lparr>trace := trace b @ [Killed p]\<rparr>
                | None \<Rightarrow> b)
      in b1\<lparr>shell := Some (spawned b1),
            spawned := Suc (spawned b1),
            isReady := False,
            trace := trace b1 @ [Spawned (spawned b1)]\<rparr>)"

text \<open>
  The constructor: \<^verbatim>\<open>options.timeout || 30000\<close>, \<^verbatim>\<open>options.maxRetries || 1\<close> (a missing or
  zero option gives the default), then \<^verbatim>\<open>_initShell()\<close>.
\<close>

definition orDefault :: "nat option \<Rightarrow> nat \<Rightarrow> nat" where
  "orDefault opt d = (case opt of None \<Rightarrow> d | Some n \<Rightarrow> if n = 0 then d else n)"

definition newBridge :: "nat option \<Rightarrow> nat option \<Rightarrow> bridge" where
  "newBridge optTimeout optMaxRetries =
     initShell \<lparr>shell = None, requestQueue = [], isProcessing = False, isReady = False,
                currentRequest = None,
                timeout = orDefault optTimeout 30000,
                maxRetries = orDefault optMaxRetries 1,
                spawned = 0, brokenPipes = [], restartTimers = 0, immediates = 0,
                requestTimers = [], requestsCreated = 0, trace = []\<rparr>"

definition handleProcessDeath :: "bridge \<Rightarrow> bridge" where
  "handleProcessDeath b =
     (let b1 = b\<lparr>isReady := False, isProcessing := False, shell := None\<rparr>;
          b2 = (case currentRequest b1 of
                  Some r \<Rightarrow> b1\<lparr>trace := trace b1 @ [Rejected r ProcessCrashed],
                               currentRequest := None\<rparr>
                | None \<Rightarrow> b1)
      in b2\<lparr>restartTimers := Suc (restartTimers b2)\<rparr>)"

text \<open>
  \<^verbatim>\<open>this.shell.send(payload)\<close> throws when \<^verbatim>\<open>this.shell\<close> is \<^verbatim>\<open>null\<close> and when the
  process has no input pipe; otherwise the payload goes to that process.
\<close>

definition sendTarget :: "bridge \<Rightarrow> pid option" where
  "sendTarget b =
     (case shell b of
        None \<Rightarrow> None
      | Some p \<Rightarrow> if p \<in> set (brokenPipes b) then None else Some p)"

function processQueue :: "bridge \<Rightarrow> bridge" where
  "processQueue b =
     (case requestQueue b of
        [] \<Rightarrow> b
      | r # rest \<Rightarrow>
          if \<not> isReady b \<or> isProcessing b then b
          else (case sendTarget b of
                  Some p \<Rightarrow>
                    b\<lparr>requestQueue := rest, currentRequest := Some r, isProcessing := True,
                      requestTimers := requestTimers b @ [rid r],
                      trace := trace b @ [Dequeued r, Sent p r]\<rparr>
                | None \<Rightarrow>
                    processQueue
                      (b\<lparr>requestQueue := rest, currentRequest := None, isProcessing := False,
                         trace := trace b @ [Dequeued r, Rejected r SendThrew]\<rparr>)))"
  by pat_completeness auto
termination
  by (relation "measure (\<lambda>b. length (requestQueue b))") auto

declare processQueue.simps [simp del]

definition executePython ::
  "jsstring \<Rightarrow> jsstring \<Rightarrow> history \<Rightarrow> bridge \<Rightarrow> bridge" where
  "executePython q u h b =
     processQueue
       (b\<lparr>requestQueue :=
            requestQueue b @
              [\<lparr>rid = requestsCreated b, query = q, userId = u, conversationHistory = h\<rparr>],
          requestsCreated := Suc (requestsCreated b)\<rparr>)"

text \<open>The \<^verbatim>\<open>'message'\<close> handler that \<^verbatim>\<open>_initShell\<close> attaches to the shell of process \<open>p\<close>.\<close>

definition onMessage :: "pid \<Rightarrow> message \<Rightarrow> bridge \<Rightarrow> bridge" where
  "onMessage p m b =
     (case m of
        Unparsable \<Rightarrow> b
      | JsonNull \<Rightarrow>
          if \<not> isReady b then b
          else (case currentRequest b of
                  None \<Rightarrow> b
                | Some r \<Rightarrow> b\<lparr>currentRequest := None, isProcessing := False,
                              trace := trace b @ [Abandoned r]\<rparr>)
      | Json ok ready err pl \<Rightarrow>
          if \<not> isReady b \<and> ok \<and> ready then processQueue (b\<lparr>isReady := True\<rparr>)
          else (case currentRequest b of
                  None \<Rightarrow> b
                | Some r \<Rightarrow>
                    b\<lparr>currentRequest := None, isProcessing := False,
                      trace := trace b @
                        [if ok then Resolved r p m else Rejected r (PythonError err)],
                      immediates := Suc (immediates b)\<rparr>))"

text \<open>The callback of the timer that \<^verbatim>\<open>_processQueue\<close> arms for the request it sent.\<close>

definition onRequestTimeout :: "nat \<Rightarrow> bridge \<Rightarrow> bridge" where
  "onRequestTimeout i b =
     (if i \<notin> set (requestTimers b) then b
      else let b1 = b\<lparr>requestTimers := remove1 i (requestTimers b)\<rparr>
           in case currentRequest b1 of
                None \<Rightarrow> b1
              | Some r \<Rightarrow>
                  if rid r = i
                  then handleProcessDeath
                         (b1\<lparr>trace := trace b1 @ [Rejected r (ExecutionTimeout (timeout b1))]\<rparr>)
                  else b1)"

subsection \<open>The event loop\<close>

text \<open>
  Everything that can run code of the bridge: a call of \<^verbatim>\<open>_executePython\<close>, an event of
  a worker process that was created (its handlers stay attached), a timer or immediate
  that is pending, and the loss of a process's input pipe.
\<close>

datatype event =
    ExecutePython jsstring jsstring history
  | ShellMessage pid message
  | ShellError pid
  | ShellClose pid
  | RestartTimer
  | Immediate
  | RequestTimeout nat
  | PipeBroken pid

fun fire :: "event \<Rightarrow> bridge \<Rightarrow> bridge" where
  "fire (ExecutePython q u h) b = executePython q u h b"
| "fire (ShellMessage p m) b = (if p < spawned b then onMessage p m b else b)"
| "fire (ShellError p) b = (if p < spawned b then handleProcessDeath b else b)"
| "fire (ShellClose p) b = (if p < spawned b then handleProcessDeath b else b)"
| "fire RestartTimer b =
     (if restartTimers b = 0 then b
      else initShell (b\<lparr>restartTimers := restartTimers b - 1\<rparr>))"
| "fire Immediate b =
     (if immediates b = 0 then b
      else processQueue (b\<lparr>immediates := immediates b - 1\<rparr>))"
| "fire (RequestTimeout i) b = onRequestTimeout i b"
| "fire (PipeBroken p) b = b\<lparr>brokenPipes := p # brokenPipes b\<rparr>"

definition run :: "event list \<Rightarrow> bridge \<Rightarrow> bridge" where
  "run evs b = foldl (\<lambda>s e. fire e s) b evs"

subsection \<open>Reading the trace\<close>

text \<open>
  The requests that were sent to worker process \<open>p\<close>, in order, and the lines that
  process \<open>p\<close> emitted among the events, in order.
\<close>

fun sentTo :: "pid \<Rightarrow> action list \<Rightarrow> request list" where
  "sentTo p [] = []"
| "sentTo p (Sent p' r # tr) = (if p' = p then r # sentTo p tr else sentTo p tr)"
| "sentTo p (a # tr) = sentTo p tr"

fun dequeued :: "action list \<Rightarrow> request list" where
  "dequeued [] = []"
| "dequeued (Dequeued r # tr) = r # dequeued tr"
| "dequeued (a # tr) = dequeued tr"

fun sent :: "action list \<Rightarrow> request list" where
  "sent [] = []"
| "sent (Sent p r # tr) = r # sent tr"
| "sent (a # tr) = sent tr"

text \<open>The requests that the calls of \<^verbatim>\<open>_executePython\<close> among the events create, in order.\<close>

fun arrivals :: "nat \<Rightarrow> event list \<Rightarrow> request list" where
  "arrivals n [] = []"
| "arrivals n (ExecutePython q u h # evs) =
     \<lparr>rid = n, query = q, userId = u, conversationHistory = h\<rparr> # arrivals (Suc n) evs"
| "arrivals n (e # evs) = arrivals n evs"


fun linesFrom :: "pid \<Rightarrow> event list \<Rightarrow> message list" where
  "linesFrom p [] = []"
| "linesFrom p (ShellMessage p' m # evs) =
     (if p' = p then m # linesFrom p evs else linesFrom p evs)"
| "linesFrom p (e # evs) = linesFrom p evs"

subsection \<open>The invariant of the request queue\<close>

definition fifoInv :: "request list \<Rightarrow> bridge \<Rightarrow> bool" where
  "fifoInv arrived b \<longleftrightarrow>
     dequeued (trace b) @ requestQueue b = arrived \<and>
     subseq (sent (trace b)) (dequeued (trace b))"

subsection \<open>executeQuery: validation and the retry loop\<close>

text \<open>
  The code units that \<^verbatim>\<open>String.prototype.trim\<close> strips and that \<^verbatim>\<open>\s\<close> matches in a
  regular expression: the white space and line terminator characters of ECMAScript.
\<close>

definition isWhiteSpace :: "16 word \<Rightarrow> bool" where
  "isWhiteSpace c \<longleftrightarrow>
     c \<in> {0x9, 0xA, 0xB, 0xC, 0xD, 0x20, 0xA0, 0x1680, 0x2028, 0x2029, 0x202F, 0x205F,
          0x3000, 0xFEFF}
     \<or> (0x2000 \<le> c \<and> c \<le> 0x200A)"

definition trim :: "jsstring \<Rightarrow> jsstring" where
  "trim s = rev (dropWhile isWhiteSpace (rev (dropWhile isWhiteSpace s)))"

datatype bridgeError =
    ValidationError string
  | PythonExecutionError nat rejection   \<comment> \<open>\<^verbatim>\<open>attempts\<close> and \<^verbatim>\<open>lastError\<close>\<close>
  | TypeError

definition validateQuery :: "jsvalue \<Rightarrow> bridgeError + jsstring" where
  "validateQuery q =
     (case q of
        JString s \<Rightarrow>
          if s = [] \<or> trim s = []
          then Inl (ValidationError ''Query must be a non-empty string'')
          else if length s > 2000
          then Inl (ValidationError ''Query exceeds maximum length of 2000 characters'')
          else Inr s
      | _ \<Rightarrow> Inl (ValidationError ''Query must be a non-empty string''))"

text \<open>
  How one call of \<^verbatim>\<open>_executePython\<close> ends for its caller: the promise is resolved with the
  worker's data (of which the callers read \<^verbatim>\<open>answer\<close> and \<^verbatim>\<open>contexts\<close>), rejected, or never
  settled.
\<close>

datatype outcome = Answer payload | Failure rejection | Pending

text \<open>What \<^verbatim>\<open>executeQuery\<close> does besides returning, in order.\<close>

datatype effect =
    Invoke nat jsstring jsstring history  \<comment> \<open>attempt number and the arguments of \<^verbatim>\<open>_executePython\<close>\<close>
  | Sleep nat                             \<comment> \<open>\<^verbatim>\<open>_sleep(ms)\<close>\<close>
  | UpdateStats bool                      \<comment> \<open>\<^verbatim>\<open>_updateStats(success, elapsed)\<close>\<close>

definition backoff :: "nat \<Rightarrow> nat" where
  "backoff attempt = min (1000 * 2 ^ (attempt - 1)) 5000"

datatype loopEnd = Returned payload | Exhausted nat "rejection option" | Hangs

text \<open>
  The \<^verbatim>\<open>while (attempt <= this.maxRetries)\<close> loop. \<open>worker k\<close> is how the \<open>k\<close>-th call
  of \<^verbatim>\<open>_executePython\<close> made by this query ends.
\<close>

function retryLoop ::
  "nat \<Rightarrow> (nat \<Rightarrow> outcome) \<Rightarrow> jsstring \<Rightarrow> jsstring \<Rightarrow> history \<Rightarrow>
   nat \<Rightarrow> rejection option \<Rightarrow> effect list \<Rightarrow> effect list \<times> loopEnd" where
  "retryLoop maxR worker q u h attempt lastError effs =
     (if attempt \<le> maxR then
        (case worker (Suc attempt) of
           Answer data \<Rightarrow> (effs @ [Invoke (Suc attempt) q u h, UpdateStats True], Returned data)
         | Pending \<Rightarrow> (effs @ [Invoke (Suc attempt) q u h], Hangs)
         | Failure e \<Rightarrow>
             if Suc attempt \<le> maxR
             then retryLoop maxR worker q u h (Suc attempt) (Some e)
                    (effs @ [Invoke (Suc attempt) q u h, Sleep (backoff (Suc attempt))])
             else retryLoop maxR worker q u h (Suc attempt) (Some e)
                    (effs @ [Invoke (Suc attempt) q u h]))
      else (effs, Exhausted attempt lastError))"
  by pat_completeness auto
termination
  by (relation "measure (\<lambda>(maxR, worker, q, u, h, attempt, lastError, effs). Suc maxR - attempt)")
     auto

declare retryLoop.simps [simp del]

text \<open>
  \<^verbatim>\<open>executeQuery(query, userId, conversationHistory)\<close>. The result is \<open>None\<close> when the
  call never returns, \<open>Some (Inl e)\<close> when it throws \<open>e\<close>, \<open>Some (Inr data)\<close> when it
  returns the worker's data. The elapsed time that the code adds to the result and to
  the statistics is left out.
\<close>

definition executeQuery ::
  "nat \<Rightarrow> (nat \<Rightarrow> outcome) \<Rightarrow> jsvalue \<Rightarrow> jsstring \<Rightarrow> history \<Rightarrow>
   effect list \<times> (bridgeError + payload) option" where
  "executeQuery maxR worker v u h =
     (case validateQuery v of
        Inl e \<Rightarrow> ([], Some (Inl e))
      | Inr q \<Rightarrow>
          (case retryLoop maxR worker q u h 0 None [] of
             (effs, Returned data) \<Rightarrow> (effs, Some (Inr data))
           | (effs, Hangs) \<Rightarrow> (effs, None)
           | (effs, Exhausted attempt lastError) \<Rightarrow>
               (case lastError of
                  None \<Rightarrow> (effs @ [UpdateStats False], Some (Inl TypeError))
                | Some e \<Rightarrow>
                    (effs @ [UpdateStats False],
                     Some (Inl (PythonExecutionError attempt e))))))"

fun invocations :: "effect list \<Rightarrow> nat" where
  "invocations [] = 0"
| "invocations (Invoke k q u h # effs) = Suc (invocations effs)"
| "invocations (e # effs) = invocations effs"

fun sleeps :: "effect list \<Rightarrow> nat list" where
  "sleeps [] = []"
| "sleeps (Sleep ms # effs) = ms # sleeps effs"
| "sleeps (e # effs) = sleeps effs"

text \<open>
  The queries that the validation is said to refuse: not a string, empty, white space
  only, or longer than 2000 code units.
\<close>

definition refusedQuery :: "jsvalue \<Rightarrow> bool" where
  "refusedQuery q =
     (case q of
        JString s \<Rightarrow> s = [] \<or> list_all isWhiteSpace s \<or> 2000 < length s
      | _ \<Rightarrow> True)"


section \<open>The cache service (services/cache.service.js)\<close>

text \<open>
  A value that JavaScript code throws, as far as a \<^verbatim>\<open>catch\<close> block that reads
  \<^verbatim>\<open>error.message\<close> can tell: reading a property of \<^verbatim>\<open>null\<close> or \<^verbatim>\<open>undefined\<close> throws a
  \<^verbatim>\<open>TypeError\<close>, reading it of any other value does not.
\<close>

datatype thrown = ErrorObject | NullOrUndefined

text \<open>
  The library functions that the cache and the queue service call:
  \<^verbatim>\<open>String.prototype.toLowerCase\<close>, the hexadecimal MD5 digest of \<^verbatim>\<open>crypto\<close>,
  \<^verbatim>\<open>JSON.stringify\<close> (\<open>Inl t\<close> when it throws \<open>t\<close>: it runs the \<^verbatim>\<open>toJSON\<close> methods and getters
  of its argument, which can throw any value) and \<^verbatim>\<open>JSON.parse\<close> (\<open>None\<close> when it throws
  its \<^verbatim>\<open>SyntaxError\<close>).
\<close>

record 'v platform =
  toLowerCase :: "jsstring \<Rightarrow> jsstring"
  md5hex :: "jsstring \<Rightarrow> jsstring"
  jsonStringify :: "'v \<Rightarrow> thrown + jsstring"
  jsonParse :: "jsstring \<Rightarrow> 'v option"

text \<open>\<^verbatim>\<open>s.replace(/\s+/g, ' ')\<close>: every maximal run of white space becomes one space.\<close>

function collapseWhiteSpace :: "jsstring \<Rightarrow> jsstring" where
  "collapseWhiteSpace [] = []"
| "collapseWhiteSpace (c # cs) =
     (if isWhiteSpace c then 0x20 # collapseWhiteSpace (dropWhile isWhiteSpace cs)
      else c # collapseWhiteSpace cs)"
  by pat_completeness auto
termination
  by (relation "measure length") (auto simp: length_dropWhile_le less_Suc_eq_le)

definition normalizeQuery :: "'v platform \<Rightarrow> jsstring \<Rightarrow> jsstring" where
  "normalizeQuery pf q = collapseWhiteSpace (trim (toLowerCase pf q))"

definition generateKey :: "'v platform \<Rightarrow> jsstring \<Rightarrow> jsstring" where
  "generateKey pf q = [0x63, 0x68, 0x61, 0x74, 0x3A] @ md5hex pf (normalizeQuery pf q)"

text \<open>
  \<^verbatim>\<open>toLowerCase\<close> on a string of ASCII code units maps \<open>A\<close> to \<open>Z\<close> onto \<open>a\<close> to \<open>z\<close> and
  keeps every other code unit. The examples below use it for the platform's function.
\<close>

definition asciiLowerCase :: "jsstring \<Rightarrow> jsstring" where
  "asciiLowerCase s = map (\<lambda>c. if 0x41 \<le> c \<and> c \<le> 0x5A then c + 0x20 else c) s"

text \<open>
  The Redis client, as far as the cache uses it: the stored strings with the time their
  \<^verbatim>\<open>setex\<close> expiry ends, and whether the server is unreachable (every command rejects).
\<close>

record redis =
  store :: "jsstring \<Rightarrow> (jsstring \<times> nat) option"
  unreachable :: bool

definition redisGet :: "redis \<Rightarrow> jsstring \<Rightarrow> nat \<Rightarrow> jsstring option" where
  "redisGet r key now =
     (case store r key of
        Some (s, expiry) \<Rightarrow> if now < expiry then Some s else None
      | None \<Rightarrow> None)"

record 'v entry =
  cachedValue :: 'v
  expiresAt :: nat

record cacheStats =
  hits :: nat
  misses :: nat
  sets :: nat
  deletes :: nat
  errors :: nat

record 'v cacheService =
  ttl :: nat
  enabled :: bool
  redisClient :: "redis option"
  memoryCache :: "(jsstring \<times> 'v entry) list"
  memoryCacheMaxSize :: nat
  stats :: cacheStats

text \<open>
  A JavaScript \<^verbatim>\<open>Map\<close> keeps its keys in insertion order: \<^verbatim>\<open>set\<close> on a present key
  replaces the value in place, on a new key appends.
\<close>

fun mapSet :: "('k \<times> 'e) list \<Rightarrow> 'k \<Rightarrow> 'e \<Rightarrow> ('k \<times> 'e) list" where
  "mapSet [] k e = [(k, e)]"
| "mapSet ((k', e') # m) k e = (if k' = k then (k, e) # m else (k', e') # mapSet m k e)"

definition mapDelete :: "('k \<times> 'e) list \<Rightarrow> 'k \<Rightarrow> ('k \<times> 'e) list" where
  "mapDelete m k = filter (\<lambda>(k', e). k' \<noteq> k) m"

text \<open>\<^verbatim>\<open>this.memoryCache.delete(this.memoryCache.keys().next().value)\<close>.\<close>

definition evictFirst :: "('k \<times> 'e) list \<Rightarrow> ('k \<times> 'e) list" where
  "evictFirst m = (case m of [] \<Rightarrow> [] | x # rest \<Rightarrow> rest)"

definition newCacheService :: "nat option \<Rightarrow> nat \<Rightarrow> bool \<Rightarrow> 'v cacheService" where
  "newCacheService optTtl envCacheTtl envCacheEnabled =
     \<lparr>ttl = orDefault optTtl envCacheTtl, enabled = envCacheEnabled, redisClient = None,
      memoryCache = [], memoryCacheMaxSize = 100,
      stats = \<lparr>hits = 0, misses = 0, sets = 0, deletes = 0, errors = 0\<rparr>\<rparr>"

definition countHit :: "'v cacheService \<Rightarrow> 'v cacheService" where
  "countHit c = c\<lparr>stats := (stats c)\<lparr>hits := Suc (hits (stats c))\<rparr>\<rparr>"

definition countMiss :: "'v cacheService \<Rightarrow> 'v cacheService" where
  "countMiss c = c\<lparr>stats := (stats c)\<lparr>misses := Suc (misses (stats c))\<rparr>\<rparr>"

definition countSet :: "'v cacheService \<Rightarrow> 'v cacheService" where
  "countSet c = c\<lparr>stats := (stats c)\<lparr>sets := Suc (sets (stats c))\<rparr>\<rparr>"

definition countError :: "'v cacheService \<Rightarrow> 'v cacheService" where
  "countError c = c\<lparr>stats := (stats c)\<lparr>errors := Suc (errors (stats c))\<rparr>\<rparr>"

text \<open>
  What the \<^verbatim>\<open>try\<close> blocks of the cache throw: the rejection of a Redis command and the
  \<^verbatim>\<open>SyntaxError\<close> of \<^verbatim>\<open>JSON.parse\<close>, which are \<^verbatim>\<open>Error\<close> objects, and whatever
  \<^verbatim>\<open>JSON.stringify\<close> throws. The \<^verbatim>\<open>catch\<close> blocks read \<^verbatim>\<open>error.message\<close>.
\<close>

datatype cacheError = RedisError | StringifyError thrown | ParseError

fun hasMessage :: "cacheError \<Rightarrow> bool" where
  "hasMessage (StringifyError NullOrUndefined) = False"
| "hasMessage e = True"

text \<open>The \<^verbatim>\<open>TypeError\<close> that leaves a \<^verbatim>\<open>catch\<close> block of the cache.\<close>

datatype catchFailure = CatchTypeError

text \<open>The fallback part of \<^verbatim>\<open>get\<close>: the memory cache, then the miss.\<close>

definition memoryGet ::
  "jsstring \<Rightarrow> nat \<Rightarrow> 'v cacheService \<Rightarrow> (cacheError + 'v option) \<times> 'v cacheService" where
  "memoryGet key now c =
     (case map_of (memoryCache c) key of
        Some cached \<Rightarrow>
          if now < expiresAt cached then (Inr (Some (cachedValue cached)), countHit c)
          else (Inr None, countMiss (c\<lparr>memoryCache := mapDelete (memoryCache c) key\<rparr>))
      | None \<Rightarrow> (Inr None, countMiss c))"

text \<open>
  The \<^verbatim>\<open>try\<close> block of \<^verbatim>\<open>get\<close>: \<open>Inl\<close> is an exception thrown inside it, with the state as
  it is when the exception leaves the block.
\<close>

definition tryGet ::
  "'v platform \<Rightarrow> jsstring \<Rightarrow> nat \<Rightarrow> 'v cacheService \<Rightarrow>
   (cacheError + 'v option) \<times> 'v cacheService" where
  "tryGet pf key now c =
     (case redisClient c of
        Some r \<Rightarrow>
          if unreachable r then (Inl RedisError, c)
          else (case redisGet r key now of
                  Some s \<Rightarrow>
                    if s \<noteq> [] then
                      (case jsonParse pf s of
                         None \<Rightarrow> (Inl ParseError, countHit c)
                       | Some v \<Rightarrow> (Inr (Some v), countHit c))
                    else memoryGet key now c
                | None \<Rightarrow> memoryGet key now c)
      | None \<Rightarrow> memoryGet key now c)"

text \<open>
  \<^verbatim>\<open>get(key)\<close>; \<open>None\<close> is the \<^verbatim>\<open>null\<close> of a miss. \<open>now\<close> is \<^verbatim>\<open>Date.now()\<close>. Every error of
  \<open>tryGet\<close> is an \<^verbatim>\<open>Error\<close> object, so the \<^verbatim>\<open>catch\<close> block of \<^verbatim>\<open>get\<close> reads its message and
  returns.
\<close>

definition get ::
  "'v platform \<Rightarrow> jsstring \<Rightarrow> nat \<Rightarrow> 'v cacheService \<Rightarrow> 'v option \<times> 'v cacheService" where
  "get pf key now c =
     (if \<not> enabled c then (None, c)
      else (case tryGet pf key now c of
              (Inl e, c') \<Rightarrow> (None, countError c')
            | (Inr r, c') \<Rightarrow> (r, c')))"

text \<open>The \<^verbatim>\<open>try\<close> block of \<^verbatim>\<open>set\<close>, with \<open>t\<close> the value of \<^verbatim>\<open>customTtl || this.ttl\<close>.\<close>

definition trySet ::
  "'v platform \<Rightarrow> jsstring \<Rightarrow> 'v \<Rightarrow> nat \<Rightarrow> nat \<Rightarrow> 'v cacheService \<Rightarrow>
   (cacheError + bool) \<times> 'v cacheService" where
  "trySet pf key v t now c =
     (case jsonStringify pf v of
        Inl t \<Rightarrow> (Inl (StringifyError t), c)
      | Inr serialized \<Rightarrow>
          (case redisClient c of
             Some r \<Rightarrow>
               if unreachable r then (Inl RedisError, c)
               else (Inr True,
                     countSet (c\<lparr>redisClient :=
                       Some (r\<lparr>store := (store r)(key \<mapsto> (serialized, now + t * 1000))\<rparr>)\<rparr>))
           | None \<Rightarrow>
               (let m = (if memoryCacheMaxSize c \<le> length (memoryCache c)
                         then evictFirst (memoryCache c) else memoryCache c)
                in (Inr True,
                    countSet (c\<lparr>memoryCache :=
                      mapSet m key \<lparr>cachedValue = v, expiresAt = now + t * 1000\<rparr>\<rparr>)))))"

text \<open>
  \<^verbatim>\<open>set(key, value, customTtl)\<close>. The \<^verbatim>\<open>catch\<close> block counts the error and then logs
  \<^verbatim>\<open>error.message\<close>: when the value thrown is \<^verbatim>\<open>null\<close> or \<^verbatim>\<open>undefined\<close> that read throws, and
  the \<^verbatim>\<open>TypeError\<close> leaves \<^verbatim>\<open>set\<close> (\<open>Inl\<close>); otherwise \<^verbatim>\<open>set\<close> returns \<^verbatim>\<open>false\<close>.
\<close>

definition set_cache ::
  "'v platform \<Rightarrow> jsstring \<Rightarrow> 'v \<Rightarrow> nat option \<Rightarrow> nat \<Rightarrow> 'v cacheService \<Rightarrow>
   (catchFailure + bool) \<times> 'v cacheService" where
  "set_cache pf key v customTtl now c =
     (if \<not> enabled c then (Inr False, c)
      else (case trySet pf key v (orDefault customTtl (ttl c)) now c of
              (Inl e, c') \<Rightarrow>
                if hasMessage e then (Inr False, countError c')
                else (Inl CatchTypeError, countError c')
            | (Inr ok, c') \<Rightarrow> (Inr ok, c')))"


section \<open>The queue service (services/queue.service.js) and the in-memory queue (config/queue.js)\<close>

subsection \<open>Jobs\<close>

text \<open>\<^verbatim>\<open>sessionId || `session-${Date.now()}`\<close>: the caller's session or one named after the clock.\<close>

datatype sessionRef = GivenSession jsstring | FreshSession nat

record jobData =
  data_query :: jsvalue
  data_userId :: jsstring
  data_sessionId :: sessionRef
  data_conversationHistory :: "history option"
  data_timestamp :: nat

record jobResult =
  result_answer :: jsstring
  result_contexts :: "jsstring list"
  cached :: bool
  result_userId :: jsstring
  result_sessionId :: sessionRef

datatype jobError = KeyTypeError | BridgeFailed bridgeError | CacheSetFailed catchFailure

text \<open>What \<^verbatim>\<open>_processJob\<close> does besides returning, in order.\<close>

datatype jobEffect =
    Progress nat                \<comment> \<open>\<^verbatim>\<open>job.progress(n)\<close>\<close>
  | CacheGet jsstring           \<comment> \<open>\<^verbatim>\<open>cacheService.get(cacheKey)\<close>\<close>
  | CacheSet jsstring payload   \<comment> \<open>\<^verbatim>\<open>cacheService.set(cacheKey, {answer, contexts})\<close>\<close>
  | Bridge effect               \<comment> \<open>an effect of \<^verbatim>\<open>pythonBridge.executeQuery\<close>\<close>

definition noHistory :: "history option \<Rightarrow> bool" where
  "noHistory ch = (case ch of None \<Rightarrow> True | Some h \<Rightarrow> h = [])"

definition historyOrEmpty :: "history option \<Rightarrow> history" where
  "historyOrEmpty ch = (case ch of None \<Rightarrow> [] | Some h \<Rightarrow> h)"

text \<open>
  \<^verbatim>\<open>_processJob(job)\<close>, over the state of the cache. \<open>nowGet\<close> and \<open>nowSet\<close> are the clock
  when the cache is read and when it is written; \<open>worker\<close> is as in \<open>retryLoop\<close>. The
  result is \<open>None\<close> when the job never finishes, \<open>Some (Inl e)\<close> when it throws (the
  \<^verbatim>\<open>catch\<close> block logs and rethrows, also the \<^verbatim>\<open>TypeError\<close> that can leave
  \<^verbatim>\<open>cacheService.set\<close>). The elapsed time in the result is left out. \<^verbatim>\<open>generateKey\<close> calls \<^verbatim>\<open>query.toLowerCase()\<close>,
  which throws a \<^verbatim>\<open>TypeError\<close> unless the query is a string.
\<close>

definition processJob ::
  "payload platform \<Rightarrow> nat \<Rightarrow> (nat \<Rightarrow> outcome) \<Rightarrow> nat \<Rightarrow> nat \<Rightarrow> jobData \<Rightarrow>
   payload cacheService \<Rightarrow>
   (jobEffect list \<times> (jobError + jobResult) option) \<times> payload cacheService" where
  "processJob pf maxR worker nowGet nowSet d c =
     (case data_query d of
        JString q \<Rightarrow>
          (let cacheKey = generateKey pf q;
               (hit, c1, effs1) =
                 (if noHistory (data_conversationHistory d)
                  then (case get pf cacheKey nowGet c of
                          (r, c') \<Rightarrow> (r, c', [Progress 20, CacheGet cacheKey]))
                  else (None, c, [Progress 20]))
           in case hit of
                Some found \<Rightarrow>
                  ((effs1 @ [Progress 100],
                    Some (Inr \<lparr>result_answer = answer found, result_contexts = contexts found,
                               cached = True, result_userId = data_userId d,
                               result_sessionId = data_sessionId d\<rparr>)),
                   c1)
              | None \<Rightarrow>
                  (case executeQuery maxR worker (JString q) (data_userId d)
                          (historyOrEmpty (data_conversationHistory d)) of
                     (beffs, None) \<Rightarrow> ((effs1 @ [Progress 40] @ map Bridge beffs, None), c1)
                   | (beffs, Some (Inl e)) \<Rightarrow>
                       ((effs1 @ [Progress 40] @ map Bridge beffs, Some (Inl (BridgeFailed e))),
                        c1)
                   | (beffs, Some (Inr result)) \<Rightarrow>
                       (let stored = \<lparr>answer = answer result, contexts = contexts result\<rparr>;
                            (written, c2) = set_cache pf cacheKey stored None nowSet c1
                        in case written of
                             Inl f \<Rightarrow>
                               ((effs1 @ [Progress 40] @ map Bridge beffs @
                                   [Progress 80, CacheSet cacheKey stored],
                                 Some (Inl (CacheSetFailed f))),
                                c2)
                           | Inr ok \<Rightarrow>
                               ((effs1 @ [Progress 40] @ map Bridge beffs @
                                   [Progress 80, CacheSet cacheKey stored, Progress 100],
                                 Some (Inr \<lparr>result_answer = answer result,
                                            result_contexts = contexts result,
                                            cached = False, result_userId = data_userId d,
                                            result_sessionId = data_sessionId d\<rparr>)),
                                c2))))
      | _ \<Rightarrow> (([Progress 20], Some (Inl KeyTypeError)), c))"

fun cacheReads :: "jobEffect list \<Rightarrow> jsstring list" where
  "cacheReads [] = []"
| "cacheReads (CacheGet k # effs) = k # cacheReads effs"
| "cacheReads (e # effs) = cacheReads effs"

fun cacheWrites :: "jobEffect list \<Rightarrow> (jsstring \<times> payload) list" where
  "cacheWrites [] = []"
| "cacheWrites (CacheSet k v # effs) = (k, v) # cacheWrites effs"
| "cacheWrites (e # effs) = cacheWrites effs"

subsection \<open>MockQueue\<close>

text \<open>\<^verbatim>\<open>options.jobId || `job-${++this.jobCounter}`\<close>.\<close>

datatype jobId = CustomId jsstring | Generated nat

datatype jobState = Waiting | Active | Completed | Failed

record jobOptions =
  priority :: nat
  opts_timeout :: nat
  opts_jobId :: "jsstring option"

text \<open>
  A job object of \<^verbatim>\<open>MockQueue\<close>; \<open>state\<close> is what \<^verbatim>\<open>getState()\<close> answers.
\<close>

record 'r job =
  job_id :: jobId
  data :: jobData
  opts :: jobOptions
  timestamp :: nat
  attemptsMade :: nat
  state :: jobState
  returnvalue :: "'r option"
  failedReason :: "jsstring option"

text \<open>
  How the promise of the registered processor ends for one job: fulfilled with a result,
  rejected with an error (its message), or never settled.
\<close>

datatype 'r settle = Completes 'r | Throws jsstring | NeverSettles

text \<open>
  The queue: its \<^verbatim>\<open>Map\<close> of jobs, the counter, the processor if \<^verbatim>\<open>process\<close> was called, and
  the handlers registered with \<^verbatim>\<open>on\<close> for the two events that \<^verbatim>\<open>add\<close> emits. A handler
  answers \<open>Some m\<close> when it throws an error with message \<open>m\<close>.
\<close>

record 'r mockQueue =
  jobs :: "(jobId \<times> 'r job) list"
  jobCounter :: nat
  processor :: "('r job \<Rightarrow> 'r settle) option"
  completedHandler :: "('r job \<Rightarrow> 'r \<Rightarrow> jsstring option) option"
  failedHandler :: "('r job \<Rightarrow> jsstring \<Rightarrow> jsstring option) option"

datatype queueEvent =
    Stored jobId              \<comment> \<open>\<^verbatim>\<open>this.jobs.set(jobId, job)\<close>\<close>
  | ProcessorCalled jobId     \<comment> \<open>\<^verbatim>\<open>this.processor(job)\<close> was called\<close>
  | ProcessorSettled jobId    \<comment> \<open>the \<^verbatim>\<open>await\<close> of the processor's promise ended\<close>
  | EmittedCompleted jobId
  | EmittedFailed jobId

text \<open>How an \<^verbatim>\<open>async\<close> call ends for the caller that awaits it.\<close>

datatype 'a completion = Returns 'a | Raises jsstring | NeverReturns

definition emitCompleted :: "'r mockQueue \<Rightarrow> 'r job \<Rightarrow> 'r \<Rightarrow> jsstring option" where
  "emitCompleted mq j r = (case completedHandler mq of None \<Rightarrow> None | Some handler \<Rightarrow> handler j r)"

definition emitFailed :: "'r mockQueue \<Rightarrow> 'r job \<Rightarrow> jsstring \<Rightarrow> jsstring option" where
  "emitFailed mq j m = (case failedHandler mq of None \<Rightarrow> None | Some handler \<Rightarrow> handler j m)"

text \<open>The \<^verbatim>\<open>catch\<close> block of \<^verbatim>\<open>add\<close>, entered with the error message \<open>m\<close>.\<close>

definition addCatch ::
  "'r mockQueue \<Rightarrow> 'r job \<Rightarrow> jsstring \<Rightarrow> queueEvent list \<Rightarrow>
   ('r job completion \<times> queueEvent list) \<times> 'r mockQueue" where
  "addCatch mq j m evs =
     (let failed = j\<lparr>failedReason := Some m, state := Failed\<rparr>;
          mq' = mq\<lparr>jobs := mapSet (jobs mq) (job_id j) failed\<rparr>
      in case emitFailed mq failed m of
           None \<Rightarrow> ((Returns failed, evs @ [EmittedFailed (job_id j)]), mq')
         | Some m' \<Rightarrow> ((Raises m', evs @ [EmittedFailed (job_id j)]), mq'))"

text \<open>\<^verbatim>\<open>MockQueue.add(data, options)\<close>; \<open>now\<close> is \<^verbatim>\<open>Date.now()\<close>.\<close>

definition add ::
  "jobData \<Rightarrow> jobOptions \<Rightarrow> nat \<Rightarrow> 'r mockQueue \<Rightarrow>
   ('r job completion \<times> queueEvent list) \<times> 'r mockQueue" where
  "add d os now mq =
     (let (jid, counter) =
            (case opts_jobId os of
               None \<Rightarrow> (Generated (Suc (jobCounter mq)), Suc (jobCounter mq))
             | Some s \<Rightarrow>
                 if s = [] then (Generated (Suc (jobCounter mq)), Suc (jobCounter mq))
                 else (CustomId s, jobCounter mq));
          j = \<lparr>job_id = jid, data = d, opts = os, timestamp = now, attemptsMade = 0,
               state = Waiting, returnvalue = None, failedReason = None\<rparr>;
          mq1 = mq\<lparr>jobs := mapSet (jobs mq) jid j, jobCounter := counter\<rparr>
      in case processor mq1 of
           None \<Rightarrow> ((Returns j, [Stored jid]), mq1)
         | Some run_processor \<Rightarrow>
             (let active = j\<lparr>state := Active\<rparr>;
                  mq2 = mq1\<lparr>jobs := mapSet (jobs mq1) jid active\<rparr>
              in case run_processor active of
                   NeverSettles \<Rightarrow> ((NeverReturns, [Stored jid, ProcessorCalled jid]), mq2)
                 | Completes r \<Rightarrow>
                     (let finished = active\<lparr>returnvalue := Some r, state := Completed\<rparr>;
                          mq3 = mq2\<lparr>jobs := mapSet (jobs mq2) jid finished\<rparr>;
                          evs = [Stored jid, ProcessorCalled jid, ProcessorSettled jid,
                                 EmittedCompleted jid]
                      in case emitCompleted mq3 finished r of
                           None \<Rightarrow> ((Returns finished, evs), mq3)
                         | Some m \<Rightarrow> addCatch mq3 finished m evs)
                 | Throws m \<Rightarrow>
                     addCatch mq2 active m
                       [Stored jid, ProcessorCalled jid, ProcessorSettled jid]))"

subsection \<open>The chat queue: Bull or MockQueue\<close>

text \<open>
  The state of the Redis-backed queue: the jobs waiting for a processor, the counter of
  job ids, and the processor registered with \<^verbatim>\<open>process\<close>.
\<close>

record 'r bullQueue =
  bull_waiting :: "'r job list"
  bull_counter :: nat
  bull_processor :: "('r job \<Rightarrow> 'r settle) option"

text \<open>
  Modelled from the spec: the \<^verbatim>\<open>add\<close> of Bull's \<^verbatim>\<open>Queue\<close>, library code that the sources
  import and do not contain. The spec's contract of \<open>submit\<close> is that it "always succeeds
  immediately (enqueue never blocks the caller beyond lightweight bookkeeping)" and
  returns a handle; a job is "created on submission" and "transitions to \<open>active\<close> when a
  processor slot is free". So \<open>bullAdd\<close> stores the new job as waiting and returns it; the
  processor runs on a later turn of the queue.
\<close>

definition bullAdd ::
  "jobData \<Rightarrow> jobOptions \<Rightarrow> nat \<Rightarrow> 'r bullQueue \<Rightarrow>
   ('r job completion \<times> queueEvent list) \<times> 'r bullQueue" where
  "bullAdd d os now bq =
     (let (jid, counter) =
            (case opts_jobId os of
               None \<Rightarrow> (Generated (Suc (bull_counter bq)), Suc (bull_counter bq))
             | Some s \<Rightarrow>
                 if s = [] then (Generated (Suc (bull_counter bq)), Suc (bull_counter bq))
                 else (CustomId s, bull_counter bq));
          j = \<lparr>job_id = jid, data = d, opts = os, timestamp = now, attemptsMade = 0,
               state = Waiting, returnvalue = None, failedReason = None\<rparr>
      in ((Returns j, [Stored jid]),
          bq\<lparr>bull_waiting := bull_waiting bq @ [j], bull_counter := counter\<rparr>))"

text \<open>
  \<^verbatim>\<open>createChatQueue\<close>: the in-memory queue when \<^verbatim>\<open>env.cacheEnabled\<close> is false, the
  Redis-backed queue otherwise (the default).
\<close>

datatype 'r chatQueue = BullQueue "'r bullQueue" | MockQueue "'r mockQueue"

definition createChatQueue :: "bool \<Rightarrow> 'r chatQueue" where
  "createChatQueue cacheEnabled =
     (if \<not> cacheEnabled
      then MockQueue \<lparr>jobs = [], jobCounter = 0, processor = None,
                       completedHandler = None, failedHandler = None\<rparr>
      else BullQueue \<lparr>bull_waiting = [], bull_counter = 0, bull_processor = None\<rparr>)"

text \<open>
  \<^verbatim>\<open>QueueService.processJobs\<close>, which the server calls before it listens:
  \<^verbatim>\<open>this.queue.process(concurrency, processor)\<close> registers the processor.
\<close>

definition processJobs :: "('r job \<Rightarrow> 'r settle) \<Rightarrow> 'r chatQueue \<Rightarrow> 'r chatQueue" where
  "processJobs f q =
     (case q of
        BullQueue bq \<Rightarrow> BullQueue (bq\<lparr>bull_processor := Some f\<rparr>)
      | MockQueue mq \<Rightarrow> MockQueue (mq\<lparr>processor := Some f\<rparr>))"

text \<open>\<^verbatim>\<open>this.queue.add(jobData, jobOptions)\<close>, for the queue that was created.\<close>

definition queueAdd ::
  "jobData \<Rightarrow> jobOptions \<Rightarrow> nat \<Rightarrow> 'r chatQueue \<Rightarrow>
   ('r job completion \<times> queueEvent list) \<times> 'r chatQueue" where
  "queueAdd d os now q =
     (case q of
        BullQueue bq \<Rightarrow> (case bullAdd d os now bq of (r, bq') \<Rightarrow> (r, BullQueue bq'))
      | MockQueue mq \<Rightarrow> (case add d os now mq of (r, mq') \<Rightarrow> (r, MockQueue mq')))"

subsection \<open>QueueService.addJob\<close>

text \<open>The argument of \<^verbatim>\<open>addJob\<close>; a missing field is \<open>None\<close>.\<close>

record submission =
  sub_query :: jsvalue
  sub_userId :: "jsstring option"
  sub_sessionId :: "jsstring option"
  sub_conversationHistory :: "history option"

record addOptions =
  sub_priority :: "nat option"
  sub_timeout :: "nat option"
  sub_jobId :: "jsstring option"

definition anonymous :: jsstring where
  "anonymous = [0x61, 0x6E, 0x6F, 0x6E, 0x79, 0x6D, 0x6F, 0x75, 0x73]"

text \<open>
  \<^verbatim>\<open>addJob(data, options)\<close>. After the job is added the code logs \<^verbatim>\<open>query.length\<close>, which throws a \<^verbatim>\<open>TypeError\<close> for \<^verbatim>\<open>undefined\<close> and \<^verbatim>\<open>null\<close>;
  the \<^verbatim>\<open>catch\<close> block rethrows every error. \<open>envQueueTimeout\<close> is \<^verbatim>\<open>env.queueTimeout\<close>.
\<close>

definition typeErrorMessage :: jsstring where
  "typeErrorMessage = [0x54, 0x79, 0x70, 0x65, 0x45, 0x72, 0x72, 0x6F, 0x72]"

text \<open>The \<^verbatim>\<open>jobData\<close> and \<^verbatim>\<open>jobOptions\<close> objects that \<^verbatim>\<open>addJob\<close> builds.\<close>

definition jobDataOf :: "submission \<Rightarrow> nat \<Rightarrow> jobData" where
  "jobDataOf sub now =
     \<lparr>data_query = sub_query sub,
      data_userId = (case sub_userId sub of
                       None \<Rightarrow> anonymous
                     | Some u \<Rightarrow> if u = [] then anonymous else u),
      data_sessionId = (case sub_sessionId sub of
                          None \<Rightarrow> FreshSession now
                        | Some s \<Rightarrow> if s = [] then FreshSession now else GivenSession s),
      data_conversationHistory = Some (historyOrEmpty (sub_conversationHistory sub)),
      data_timestamp = now\<rparr>"

definition jobOptionsOf :: "nat \<Rightarrow> addOptions \<Rightarrow> jobOptions" where
  "jobOptionsOf envQueueTimeout os =
     \<lparr>priority = orDefault (sub_priority os) 0,
      opts_timeout = orDefault (sub_timeout os) envQueueTimeout,
      opts_jobId = sub_jobId os\<rparr>"

definition addJob ::
  "nat \<Rightarrow> submission \<Rightarrow> addOptions \<Rightarrow> nat \<Rightarrow> 'r chatQueue \<Rightarrow>
   ('r job completion \<times> queueEvent list) \<times> 'r chatQueue" where
  "addJob envQueueTimeout sub os now q =
     (case queueAdd (jobDataOf sub now) (jobOptionsOf envQueueTimeout os) now q of
        ((Returns j, evs), q') \<Rightarrow>
          (if sub_query sub = JUndefined \<or> sub_query sub = JNull
           then ((Raises typeErrorMessage, evs), q')
           else ((Returns j, evs), q'))
      | other \<Rightarrow> other)"

section \<open>Properties of the bridge's event loop\<close>

subsection \<open>The order of the request queue\<close>

lemma dequeued_append: "dequeued (tr @ tr') = dequeued tr @ dequeued tr'"
  by (induction tr rule: dequeued.induct) simp_all

lemma sent_append: "sent (tr @ tr') = sent tr @ sent tr'"
  by (induction tr rule: sent.induct) simp_all

lemma fifoInv_processQueue: "fifoInv arrived b \<Longrightarrow> fifoInv arrived (processQueue b)"
proof (induction b rule: processQueue.induct)
  case (1 b)
  show ?case
  proof (cases "requestQueue b")
    case Nil
    with 1 show ?thesis by (simp add: processQueue.simps)
  next
    case (Cons r rest)
    show ?thesis
    proof (cases "\<not> isReady b \<or> isProcessing b")
      case True
      with 1 Cons show ?thesis by (simp add: processQueue.simps)
    next
      case False
      show ?thesis
      proof (cases "sendTarget b")
        case None
        have "fifoInv arrived
                (b\<lparr>requestQueue := rest, currentRequest := None, isProcessing := False,
                   trace := trace b @ [Dequeued r, Rejected r SendThrew]\<rparr>)"
          using "1.prems" Cons
          by (auto simp: fifoInv_def dequeued_append sent_append intro: subseq_rev_drop_many)
        then show ?thesis
          using "1.IH"[OF Cons False None] Cons False None
          by (subst processQueue.simps) simp
      next
        case (Some p)
        then show ?thesis
          using "1.prems" Cons False
          by (subst processQueue.simps)
             (auto simp: fifoInv_def dequeued_append sent_append)
      qed
    qed
  qed
qed

lemma requestsCreated_processQueue [simp]:
  "requestsCreated (processQueue b) = requestsCreated b"
  by (induction b rule: processQueue.induct)
     (subst processQueue.simps, auto split: list.splits option.splits)

lemma fifoInv_handleProcessDeath: "fifoInv arrived b \<Longrightarrow> fifoInv arrived (handleProcessDeath b)"
  by (auto simp: fifoInv_def handleProcessDeath_def Let_def dequeued_append sent_append
           split: option.splits)

lemma fifoInv_initShell: "fifoInv arrived b \<Longrightarrow> fifoInv arrived (initShell b)"
  by (auto simp: fifoInv_def initShell_def Let_def dequeued_append sent_append
           split: option.splits)

lemma fifoInv_onMessage: "fifoInv arrived b \<Longrightarrow> fifoInv arrived (onMessage p m b)"
proof (cases m)
  case (Json ok ready err pl)
  assume inv: "fifoInv arrived b"
  then have "fifoInv arrived (b\<lparr>isReady := True\<rparr>)" by (simp add: fifoInv_def)
  then have "fifoInv arrived (processQueue (b\<lparr>isReady := True\<rparr>))"
    by (rule fifoInv_processQueue)
  with inv Json show ?thesis
    by (auto simp: onMessage_def fifoInv_def dequeued_append sent_append split: option.splits)
qed (auto simp: onMessage_def fifoInv_def dequeued_append sent_append split: option.splits)

lemma fifoInv_onRequestTimeout: "fifoInv arrived b \<Longrightarrow> fifoInv arrived (onRequestTimeout i b)"
  by (auto simp: fifoInv_def onRequestTimeout_def handleProcessDeath_def Let_def
                 dequeued_append sent_append split: option.splits)

lemma fifoInv_executePython:
  assumes "fifoInv arrived b"
  shows "fifoInv (arrived @ [\<lparr>rid = requestsCreated b, query = q, userId = u,
                               conversationHistory = h\<rparr>])
           (executePython q u h b)"
  unfolding executePython_def
  by (rule fifoInv_processQueue) (use assms in \<open>auto simp: fifoInv_def\<close>)

lemma requestsCreated_fire:
  "requestsCreated (fire e b) = requestsCreated b + length (arrivals n [e])"
  by (cases e)
     (auto simp: executePython_def onMessage_def handleProcessDeath_def initShell_def
                 onRequestTimeout_def Let_def split: option.splits message.splits)

lemma fifoInv_fire:
  assumes "fifoInv arrived b"
  shows "fifoInv (arrived @ arrivals (requestsCreated b) [e]) (fire e b)"
proof (cases e)
  case (ExecutePython q u h)
  then show ?thesis using fifoInv_executePython[OF assms] by simp
next
  case RestartTimer
  from assms have "fifoInv arrived (b\<lparr>restartTimers := restartTimers b - 1\<rparr>)"
    by (simp add: fifoInv_def)
  with assms RestartTimer show ?thesis by (simp add: fifoInv_initShell)
next
  case Immediate
  from assms have "fifoInv arrived (b\<lparr>immediates := immediates b - 1\<rparr>)"
    by (simp add: fifoInv_def)
  with assms Immediate show ?thesis by (simp add: fifoInv_processQueue)
next
  case (PipeBroken p)
  with assms show ?thesis by (simp add: fifoInv_def)
qed (use assms in \<open>simp_all add: fifoInv_onMessage fifoInv_handleProcessDeath
       fifoInv_onRequestTimeout\<close>)

lemma arrivals_append:
  "arrivals n (evs @ evs') = arrivals n evs @ arrivals (n + length (arrivals n evs)) evs'"
  by (induction n evs rule: arrivals.induct) simp_all

lemma fifoInv_run:
  "fifoInv arrived b \<Longrightarrow>
   fifoInv (arrived @ arrivals (requestsCreated b) evs) (run evs b)"
proof (induction evs arbitrary: arrived b)
  case Nil
  then show ?case by (simp add: run_def)
next
  case (Cons e evs)
  have "fifoInv ((arrived @ arrivals (requestsCreated b) [e]) @
                 arrivals (requestsCreated (fire e b)) evs) (run evs (fire e b))"
    by (rule Cons.IH) (rule fifoInv_fire[OF Cons.prems])
  moreover have "arrivals (requestsCreated b) (e # evs) =
        arrivals (requestsCreated b) [e] @ arrivals (requestsCreated (fire e b)) evs"
    using arrivals_append[of "requestsCreated b" "[e]" evs]
    by (simp add: requestsCreated_fire[of e b "requestsCreated b"])
  ultimately show ?case by (simp add: run_def)
qed

lemma fifoInv_newBridge: "fifoInv [] (newBridge t m)"
  by (simp add: fifoInv_def newBridge_def initShell_def)


text \<open>
  Whatever sequence of calls of \<^verbatim>\<open>_executePython\<close>, worker events, timers and immediates
  the bridge goes through after its construction: the requests taken from the queue
  followed by those still in it are the arrivals in their order, and the requests sent
  are a subsequence of the arrivals.
\<close>

lemma bridge_fifo_order:
  "dequeued (trace (run evs (newBridge t m))) @ requestQueue (run evs (newBridge t m))
     = arrivals 0 evs \<and>
   subseq (sent (trace (run evs (newBridge t m)))) (arrivals 0 evs)"
proof -
  have "requestsCreated (newBridge t m) = 0" by (simp add: newBridge_def initShell_def)
  with fifoInv_run[OF fifoInv_newBridge, of t m evs]
  have f: "fifoInv (arrivals 0 evs) (run evs (newBridge t m))" by simp
  then have "subseq (sent (trace (run evs (newBridge t m)))) (arrivals 0 evs)"
    unfolding fifoInv_def by (metis subseq_rev_drop_many)
  with f show ?thesis by (simp add: fifoInv_def)
qed

subsection \<open>What a request timeout does to the worker\<close>

lemmas bridge_eval = run_def newBridge_def initShell_def orDefault_def onMessage_def
  executePython_def processQueue.simps sendTarget_def onRequestTimeout_def
  handleProcessDeath_def

text \<open>
  C3. The worker reports ready, a query is sent to it, the request's timer fires and the
  restart timer fires after it. The request is rejected with the timeout error and a new
  process is created, but the trace holds no \<open>Killed 0\<close>: \<^verbatim>\<open>_handleProcessDeath\<close> sets
  \<^verbatim>\<open>this.shell\<close> to \<^verbatim>\<open>null\<close>, so \<^verbatim>\<open>_initShell\<close> finds no shell to kill and process 0 stays
  alive.
\<close>

theorem timeout_does_not_kill_worker:
  "trace (run [ShellMessage 0 (Json True True None \<lparr>answer = [], contexts = []\<rparr>),
               ExecutePython [0x68, 0x69] [0x75] [],
               RequestTimeout 0,
               RestartTimer] (newBridge None None))
   = [Spawned 0,
      Dequeued \<lparr>rid = 0, query = [0x68, 0x69], userId = [0x75], conversationHistory = []\<rparr>,
      Sent 0 \<lparr>rid = 0, query = [0x68, 0x69], userId = [0x75], conversationHistory = []\<rparr>,
      Rejected \<lparr>rid = 0, query = [0x68, 0x69], userId = [0x75], conversationHistory = []\<rparr>
        (ExecutionTimeout 30000),
      Rejected \<lparr>rid = 0, query = [0x68, 0x69], userId = [0x75], conversationHistory = []\<rparr>
        ProcessCrashed,
      Spawned 1]"
  by (simp add: bridge_eval)

text \<open>
  C10. After the same timeout and restart, the new process 1 reports ready and a second
  query is sent to it. Process 0, which nobody killed, now emits the answer to the first
  query: its handler resolves the second request, which is in flight at process 1, with
  the data of process 0.
\<close>

theorem stale_answer_resolves_next_request:
  "shell (run [ShellMessage 0 (Json True True None \<lparr>answer = [], contexts = []\<rparr>),
               ExecutePython [0x61] [0x75] [],
               RequestTimeout 0,
               RestartTimer,
               ShellMessage 1 (Json True True None \<lparr>answer = [], contexts = []\<rparr>),
               ExecutePython [0x62] [0x75] [],
               ShellMessage 0 (Json True False None \<lparr>answer = [0x41], contexts = []\<rparr>)]
              (newBridge None None)) = Some 1 \<and>
   trace (run [ShellMessage 0 (Json True True None \<lparr>answer = [], contexts = []\<rparr>),
               ExecutePython [0x61] [0x75] [],
               RequestTimeout 0,
               RestartTimer,
               ShellMessage 1 (Json True True None \<lparr>answer = [], contexts = []\<rparr>),
               ExecutePython [0x62] [0x75] [],
               ShellMessage 0 (Json True False None \<lparr>answer = [0x41], contexts = []\<rparr>)]
              (newBridge None None))
   = [Spawned 0,
      Dequeued \<lparr>rid = 0, query = [0x61], userId = [0x75], conversationHistory = []\<rparr>,
      Sent 0 \<lparr>rid = 0, query = [0x61], userId = [0x75], conversationHistory = []\<rparr>,
      Rejected \<lparr>rid = 0, query = [0x61], userId = [0x75], conversationHistory = []\<rparr>
        (ExecutionTimeout 30000),
      Rejected \<lparr>rid = 0, query = [0x61], userId = [0x75], conversationHistory = []\<rparr>
        ProcessCrashed,
      Spawned 1,
      Dequeued \<lparr>rid = 1, query = [0x62], userId = [0x75], conversationHistory = []\<rparr>,
      Sent 1 \<lparr>rid = 1, query = [0x62], userId = [0x75], conversationHistory = []\<rparr>,
      Resolved \<lparr>rid = 1, query = [0x62], userId = [0x75], conversationHistory = []\<rparr> 0
        (Json True False None \<lparr>answer = [0x41], contexts = []\<rparr>)]"
  by (simp add: bridge_eval)

text \<open>
  C1. The same timeout and restart, with a third query waiting in the queue when
  process 0 emits its late answer. The handler of process 0 clears \<^verbatim>\<open>currentRequest\<close> and
  schedules \<^verbatim>\<open>_processQueue\<close>, and the immediate sends the third query to process 1. Process
  1 has then been sent two requests and has emitted nothing but its ready line: two
  requests are in flight at one worker process. The order of dispatch is still the order
  of arrival.
\<close>

theorem second_request_sent_to_busy_worker:
  "shell (run [ShellMessage 0 (Json True True None \<lparr>answer = [], contexts = []\<rparr>),
               ExecutePython [0x61] [0x75] [],
               RequestTimeout 0,
               RestartTimer,
               ShellMessage 1 (Json True True None \<lparr>answer = [], contexts = []\<rparr>),
               ExecutePython [0x62] [0x75] [],
               ExecutePython [0x63] [0x75] [],
               ShellMessage 0 (Json True False None \<lparr>answer = [0x41], contexts = []\<rparr>),
               Immediate]
              (newBridge None None)) = Some 1 \<and>
   sentTo 1 (trace (run
              [ShellMessage 0 (Json True True None \<lparr>answer = [], contexts = []\<rparr>),
               ExecutePython [0x61] [0x75] [],
               RequestTimeout 0,
               RestartTimer,
               ShellMessage 1 (Json True True None \<lparr>answer = [], contexts = []\<rparr>),
               ExecutePython [0x62] [0x75] [],
               ExecutePython [0x63] [0x75] [],
               ShellMessage 0 (Json True False None \<lparr>answer = [0x41], contexts = []\<rparr>),
               Immediate]
              (newBridge None None)))
     = [\<lparr>rid = 1, query = [0x62], userId = [0x75], conversationHistory = []\<rparr>,
        \<lparr>rid = 2, query = [0x63], userId = [0x75], conversationHistory = []\<rparr>] \<and>
   linesFrom 1
              [ShellMessage 0 (Json True True None \<lparr>answer = [], contexts = []\<rparr>),
               ExecutePython [0x61] [0x75] [],
               RequestTimeout 0,
               RestartTimer,
               ShellMessage 1 (Json True True None \<lparr>answer = [], contexts = []\<rparr>),
               ExecutePython [0x62] [0x75] [],
               ExecutePython [0x63] [0x75] [],
               ShellMessage 0 (Json True False None \<lparr>answer = [0x41], contexts = []\<rparr>),
               Immediate]
     = [Json True True None \<lparr>answer = [], contexts = []\<rparr>] \<and>
   trace (run [ShellMessage 0 (Json True True None \<lparr>answer = [], contexts = []\<rparr>),
               ExecutePython [0x61] [0x75] [],
               RequestTimeout 0,
               RestartTimer,
               ShellMessage 1 (Json True True None \<lparr>answer = [], contexts = []\<rparr>),
               ExecutePython [0x62] [0x75] [],
               ExecutePython [0x63] [0x75] [],
               ShellMessage 0 (Json True False None \<lparr>answer = [0x41], contexts = []\<rparr>),
               Immediate]
              (newBridge None None))
   = [Spawned 0,
      Dequeued \<lparr>rid = 0, query = [0x61], userId = [0x75], conversationHistory = []\<rparr>,
      Sent 0 \<lparr>rid = 0, query = [0x61], userId = [0x75], conversationHistory = []\<rparr>,
      Rejected \<lparr>rid = 0, query = [0x61], userId = [0x75], conversationHistory = []\<rparr>
        (ExecutionTimeout 30000),
      Rejected \<lparr>rid = 0, query = [0x61], userId = [0x75], conversationHistory = []\<rparr>
        ProcessCrashed,
      Spawned 1,
      Dequeued \<lparr>rid = 1, query = [0x62], userId = [0x75], conversationHistory = []\<rparr>,
      Sent 1 \<lparr>rid = 1, query = [0x62], userId = [0x75], conversationHistory = []\<rparr>,
      Resolved \<lparr>rid = 1, query = [0x62], userId = [0x75], conversationHistory = []\<rparr> 0
        (Json True False None \<lparr>answer = [0x41], contexts = []\<rparr>),
      Dequeued \<lparr>rid = 2, query = [0x63], userId = [0x75], conversationHistory = []\<rparr>,
      Sent 1 \<lparr>rid = 2, query = [0x63], userId = [0x75], conversationHistory = []\<rparr>]"
  by (simp add: bridge_eval)

section \<open>Properties of executeQuery\<close>

lemma invocations_append: "invocations (xs @ ys) = invocations xs + invocations ys"
  by (induction xs rule: invocations.induct) simp_all

lemma sleeps_append: "sleeps (xs @ ys) = sleeps xs @ sleeps ys"
  by (induction xs rule: sleeps.induct) simp_all

lemma retryLoop_all_fail:
  assumes "\<And>k. attempt < k \<Longrightarrow> k \<le> Suc maxR \<Longrightarrow> worker k = Failure (e k)"
    and "attempt \<le> maxR"
  shows "\<exists>effs'. retryLoop maxR worker q u h attempt lastError effs
            = (effs', Exhausted (Suc maxR) (Some (e (Suc maxR)))) \<and>
          invocations effs' = invocations effs + (Suc maxR - attempt) \<and>
          sleeps effs' = sleeps effs @ map backoff [Suc attempt..<Suc maxR]"
  using assms
proof (induction maxR worker q u h attempt lastError effs rule: retryLoop.induct)
  case (1 maxR worker q u h attempt lastError effs)
  have w: "worker (Suc attempt) = Failure (e (Suc attempt))"
    using "1.prems" by simp
  show ?case
  proof (cases "Suc attempt \<le> maxR")
    case True
    have fails: "\<And>k. Suc attempt < k \<Longrightarrow> k \<le> Suc maxR \<Longrightarrow> worker k = Failure (e k)"
      using "1.prems"(1) by simp
    obtain effs' where
      r: "retryLoop maxR worker q u h (Suc attempt) (Some (e (Suc attempt)))
            (effs @ [Invoke (Suc attempt) q u h, Sleep (backoff (Suc attempt))])
          = (effs', Exhausted (Suc maxR) (Some (e (Suc maxR))))"
      and i: "invocations effs' =
          invocations (effs @ [Invoke (Suc attempt) q u h, Sleep (backoff (Suc attempt))])
          + (Suc maxR - Suc attempt)"
      and sl: "sleeps effs' =
          sleeps (effs @ [Invoke (Suc attempt) q u h, Sleep (backoff (Suc attempt))])
          @ map backoff [Suc (Suc attempt)..<Suc maxR]"
      using "1.IH"(1)[OF "1.prems"(2) w True fails True] by blast
    have "[Suc attempt..<Suc maxR] = Suc attempt # [Suc (Suc attempt)..<Suc maxR]"
      using True by (simp add: upt_conv_Cons)
    then show ?thesis
      using r i sl True "1.prems"(2) w
      by (subst retryLoop.simps) (simp add: invocations_append sleeps_append)
  next
    case False
    then have eq: "attempt = maxR" using "1.prems"(2) by simp
    have last: "retryLoop maxR worker q u h (Suc attempt) (Some (e (Suc attempt)))
            (effs @ [Invoke (Suc attempt) q u h])
          = (effs @ [Invoke (Suc attempt) q u h], Exhausted (Suc maxR) (Some (e (Suc maxR))))"
      using eq by (subst retryLoop.simps) simp
    show ?thesis
      using last False "1.prems"(2) w eq
      by (subst retryLoop.simps) (simp add: invocations_append sleeps_append)
  qed
qed

text \<open>
  C4, as the code has it. When the query passes the validation and each of the first
  \<open>maxRetries + 1\<close> calls of \<^verbatim>\<open>_executePython\<close> fails, \<^verbatim>\<open>executeQuery\<close> makes exactly
  \<open>maxRetries + 1\<close> calls, sleeps \<open>backoff k\<close> after the \<open>k\<close>-th failure for
  \<open>k = 1, \<dots>, maxRetries\<close>, and throws a \<^verbatim>\<open>PythonExecutionError\<close> that carries the number of
  attempts and the last error.
\<close>

theorem executeQuery_retry_budget:
  assumes "validateQuery v = Inr q"
    and "\<And>k. 1 \<le> k \<Longrightarrow> k \<le> Suc maxR \<Longrightarrow> worker k = Failure (e k)"
  shows "invocations (fst (executeQuery maxR worker v u h)) = Suc maxR \<and>
         sleeps (fst (executeQuery maxR worker v u h)) = map backoff [1..<Suc maxR] \<and>
         snd (executeQuery maxR worker v u h)
           = Some (Inl (PythonExecutionError (Suc maxR) (e (Suc maxR))))"
proof -
  have "\<And>k. 0 < k \<Longrightarrow> k \<le> Suc maxR \<Longrightarrow> worker k = Failure (e k)"
    using assms(2) by simp
  from retryLoop_all_fail[of 0 maxR worker e q u h None "[]", OF this]
  obtain effs' where
    "retryLoop maxR worker q u h 0 None [] = (effs', Exhausted (Suc maxR) (Some (e (Suc maxR))))"
    "invocations effs' = Suc maxR" "sleeps effs' = map backoff [1..<Suc maxR]"
    by auto
  then show ?thesis
    using assms(1) by (simp add: executeQuery_def invocations_append sleeps_append)
qed

theorem executeQuery_retry_budget_witness:
  "validateQuery (JString [0x68, 0x69]) = Inr [0x68, 0x69] \<and>
   invocations (fst (executeQuery 1 (\<lambda>k. Failure (ExecutionTimeout 30000))
                       (JString [0x68, 0x69]) [0x75] [])) = 2 \<and>
   sleeps (fst (executeQuery 1 (\<lambda>k. Failure (ExecutionTimeout 30000))
                  (JString [0x68, 0x69]) [0x75] [])) = [1000] \<and>
   snd (executeQuery 1 (\<lambda>k. Failure (ExecutionTimeout 30000))
          (JString [0x68, 0x69]) [0x75] [])
     = Some (Inl (PythonExecutionError 2 (ExecutionTimeout 30000)))"
proof -
  have v: "validateQuery (JString [0x68, 0x69]) = Inr [0x68, 0x69]"
    by (simp add: validateQuery_def trim_def isWhiteSpace_def)
  show ?thesis
    using v executeQuery_retry_budget
      [OF v, of 1 "\<lambda>k. Failure (ExecutionTimeout 30000)" "\<lambda>k. ExecutionTimeout 30000"
         "[0x75]" "[]"]
    by (simp add: backoff_def)
qed

text \<open>
  C4 as stated fails: with the default \<^verbatim>\<open>maxRetries\<close> of the constructor (1) and a worker
  that always times out, the number of calls of \<^verbatim>\<open>_executePython\<close> is 2, not
  \<^verbatim>\<open>maxRetries\<close>.
\<close>

theorem executeQuery_retry_budget_counterexample:
  "invocations (fst (executeQuery (maxRetries (newBridge None None))
                       (\<lambda>k. Failure (ExecutionTimeout 30000))
                       (JString [0x68, 0x69]) [0x75] []))
   \<noteq> maxRetries (newBridge None None)"
  by (simp add: executeQuery_def validateQuery_def trim_def isWhiteSpace_def
        retryLoop.simps newBridge_def initShell_def orDefault_def)

lemma trim_empty_iff: "trim s = [] \<longleftrightarrow> list_all isWhiteSpace s"
proof
  assume "trim s = []"
  then have "\<forall>x \<in> set (dropWhile isWhiteSpace s). isWhiteSpace x"
    by (simp add: trim_def dropWhile_eq_Nil_conv)
  then have "dropWhile isWhiteSpace s = []"
    by (metis hd_dropWhile list.set_sel(1))
  then show "list_all isWhiteSpace s"
    by (simp add: dropWhile_eq_Nil_conv list_all_iff)
next
  assume "list_all isWhiteSpace s"
  then have "dropWhile isWhiteSpace s = []"
    by (simp add: dropWhile_eq_Nil_conv list_all_iff)
  then show "trim s = []"
    by (simp add: trim_def del: dropWhile_eq_Nil_conv)
qed

text \<open>
  C5. A query that is not a string, is empty, consists of white space only, or is longer
  than 2000 code units makes \<^verbatim>\<open>executeQuery\<close> throw a \<^verbatim>\<open>ValidationError\<close> with no effect
  before it: no call of \<^verbatim>\<open>_executePython\<close>, no sleep, whatever the worker would do.
\<close>

theorem validation_fails_fast:
  "refusedQuery v \<Longrightarrow>
   \<exists>msg. executeQuery maxR worker v u h = ([], Some (Inl (ValidationError msg)))"
  by (cases v) (auto simp: refusedQuery_def executeQuery_def validateQuery_def trim_empty_iff)

theorem validation_fails_fast_witness:
  "refusedQuery (JString (replicate 5000 0x61)) \<and>
   (\<exists>msg. executeQuery 1 (\<lambda>k. Answer \<lparr>answer = [0x41], contexts = []\<rparr>)
             (JString (replicate 5000 0x61)) [0x75] []
           = ([], Some (Inl (ValidationError msg))))"
proof -
  have r: "refusedQuery (JString (replicate 5000 0x61))"
    by (simp add: refusedQuery_def)
  show ?thesis
    using r validation_fails_fast[OF r, of 1 "\<lambda>k. Answer \<lparr>answer = [0x41], contexts = []\<rparr>" "[0x75]" "[]"]
    by simp
qed



section \<open>Properties of the cache service\<close>

text \<open>
  C6. Two queries with the same normalized text (lower case, trimmed, runs of white space
  collapsed to one space) get the same key. The key is computed from the query alone: no
  caller identity is among the arguments of \<open>generateKey\<close>.
\<close>

theorem generateKey_of_normalized:
  "normalizeQuery pf a = normalizeQuery pf b \<Longrightarrow> generateKey pf a = generateKey pf b"
  by (simp add: generateKey_def)


theorem generateKey_of_normalized_witness:
  "\<forall>md5 st pa.
     normalizeQuery \<lparr>toLowerCase = asciiLowerCase, md5hex = md5, jsonStringify = st,
                      jsonParse = pa\<rparr> [0x20, 0x48, 0x69, 0x20, 0x9, 0x59, 0x4F, 0x55, 0xA]
       = normalizeQuery \<lparr>toLowerCase = asciiLowerCase, md5hex = md5, jsonStringify = st,
                          jsonParse = pa\<rparr> [0x68, 0x49, 0x20, 0x79, 0x6F, 0x75] \<and>
     generateKey \<lparr>toLowerCase = asciiLowerCase, md5hex = md5, jsonStringify = st,
                   jsonParse = pa\<rparr> [0x20, 0x48, 0x69, 0x20, 0x9, 0x59, 0x4F, 0x55, 0xA]
       = generateKey \<lparr>toLowerCase = asciiLowerCase, md5hex = md5, jsonStringify = st,
                       jsonParse = pa\<rparr> [0x68, 0x49, 0x20, 0x79, 0x6F, 0x75]"
proof (intro allI)
  fix md5 :: "jsstring \<Rightarrow> jsstring" and st :: "'a \<Rightarrow> thrown + jsstring"
    and pa :: "jsstring \<Rightarrow> 'a option"
  let ?pf = "\<lparr>toLowerCase = asciiLowerCase, md5hex = md5, jsonStringify = st, jsonParse = pa\<rparr>"
  have n: "normalizeQuery ?pf [0x20, 0x48, 0x69, 0x20, 0x9, 0x59, 0x4F, 0x55, 0xA]
         = normalizeQuery ?pf [0x68, 0x49, 0x20, 0x79, 0x6F, 0x75]"
    by (simp add: normalizeQuery_def asciiLowerCase_def trim_def isWhiteSpace_def)
  show "normalizeQuery ?pf [0x20, 0x48, 0x69, 0x20, 0x9, 0x59, 0x4F, 0x55, 0xA]
         = normalizeQuery ?pf [0x68, 0x49, 0x20, 0x79, 0x6F, 0x75] \<and>
        generateKey ?pf [0x20, 0x48, 0x69, 0x20, 0x9, 0x59, 0x4F, 0x55, 0xA]
         = generateKey ?pf [0x68, 0x49, 0x20, 0x79, 0x6F, 0x75]"
    using n generateKey_of_normalized[OF n] by simp
qed

lemma map_of_mapSet: "map_of (mapSet m k e) k = Some e"
  by (induction m k e rule: mapSet.induct) simp_all

lemma length_mapSet: "length (mapSet m k e) \<le> Suc (length m)"
  by (induction m k e rule: mapSet.induct) simp_all

lemma evictFirst_tl: "evictFirst m = tl m"
  by (cases m) (simp_all add: evictFirst_def)

text \<open>
  C7, as the code has it. A \<^verbatim>\<open>set\<close> that returns \<^verbatim>\<open>true\<close> wrote to exactly one store. With
  a Redis client the serialized value is in Redis under the key, with the expiry of the
  TTL, and the memory cache is unchanged. Without one the entry is in the memory cache,
  after the removal of the oldest entry when the cache held \<^verbatim>\<open>memoryCacheMaxSize\<close> entries
  or more.
\<close>

theorem set_cache_single_store:
  assumes "fst (set_cache pf key v customTtl now c) = Inr True"
  shows "enabled c \<and>
    (case redisClient c of
       Some r \<Rightarrow>
         (\<exists>s r'. jsonStringify pf v = Inr s \<and>
            redisClient (snd (set_cache pf key v customTtl now c)) = Some r' \<and>
            store r' key = Some (s, now + orDefault customTtl (ttl c) * 1000)) \<and>
         memoryCache (snd (set_cache pf key v customTtl now c)) = memoryCache c
     | None \<Rightarrow>
         redisClient (snd (set_cache pf key v customTtl now c)) = None \<and>
         map_of (memoryCache (snd (set_cache pf key v customTtl now c))) key
           = Some \<lparr>cachedValue = v, expiresAt = now + orDefault customTtl (ttl c) * 1000\<rparr> \<and>
         memoryCache (snd (set_cache pf key v customTtl now c))
           = mapSet (if memoryCacheMaxSize c \<le> length (memoryCache c)
                     then tl (memoryCache c) else memoryCache c)
               key \<lparr>cachedValue = v, expiresAt = now + orDefault customTtl (ttl c) * 1000\<rparr>)"
  using assms
  by (cases "jsonStringify pf v")
     (auto simp: set_cache_def trySet_def countSet_def countError_def Let_def evictFirst_tl
        map_of_mapSet split: if_splits option.splits)

theorem set_cache_single_store_witness:
  "fst (set_cache \<lparr>toLowerCase = asciiLowerCase, md5hex = (\<lambda>s. s),
                    jsonStringify = (\<lambda>v::payload. Inr [0x7B, 0x7D]),
                    jsonParse = (\<lambda>s. None)\<rparr>
          [0x6B] \<lparr>answer = [0x41], contexts = []\<rparr> None 5000
          (newCacheService None 3600 True)) = Inr True \<and>
   memoryCache (snd (set_cache \<lparr>toLowerCase = asciiLowerCase, md5hex = (\<lambda>s. s),
                    jsonStringify = (\<lambda>v::payload. Inr [0x7B, 0x7D]),
                    jsonParse = (\<lambda>s. None)\<rparr>
          [0x6B] \<lparr>answer = [0x41], contexts = []\<rparr> None 5000
          (newCacheService None 3600 True)))
     = [([0x6B], \<lparr>cachedValue = \<lparr>answer = [0x41], contexts = []\<rparr>, expiresAt = 3605000\<rparr>)]"
proof -
  let ?pf = "\<lparr>toLowerCase = asciiLowerCase, md5hex = (\<lambda>s. s),
              jsonStringify = (\<lambda>v::payload. Inr [0x7B, 0x7D]),
              jsonParse = (\<lambda>s. None :: payload option)\<rparr>"
  have h: "fst (set_cache ?pf [0x6B] \<lparr>answer = [0x41], contexts = []\<rparr> None 5000
                 (newCacheService None 3600 True)) = Inr True"
    by (simp add: set_cache_def trySet_def newCacheService_def orDefault_def countSet_def)
  show ?thesis
    using h set_cache_single_store[OF h]
    by (simp add: newCacheService_def orDefault_def)
qed

text \<open>
  C7 as stated fails: with Redis available a successful \<^verbatim>\<open>set\<close> leaves the memory cache
  without the key.
\<close>

theorem set_cache_redis_only_counterexample:
  "fst (set_cache \<lparr>toLowerCase = asciiLowerCase, md5hex = (\<lambda>s. s),
                    jsonStringify = (\<lambda>v::payload. Inr [0x7B, 0x7D]),
                    jsonParse = (\<lambda>s. None)\<rparr>
          [0x6B] \<lparr>answer = [0x41], contexts = []\<rparr> None 5000
          ((newCacheService None 3600 True)
             \<lparr>redisClient := Some \<lparr>store = (\<lambda>k. None), unreachable = False\<rparr>\<rparr>)) = Inr True \<and>
   map_of (memoryCache (snd (set_cache \<lparr>toLowerCase = asciiLowerCase, md5hex = (\<lambda>s. s),
                    jsonStringify = (\<lambda>v::payload. Inr [0x7B, 0x7D]),
                    jsonParse = (\<lambda>s. None)\<rparr>
          [0x6B] \<lparr>answer = [0x41], contexts = []\<rparr> None 5000
          ((newCacheService None 3600 True)
             \<lparr>redisClient := Some \<lparr>store = (\<lambda>k. None), unreachable = False\<rparr>\<rparr>))))
     [0x6B] = None"
  by (simp add: set_cache_def trySet_def newCacheService_def orDefault_def countSet_def)

text \<open>
  What the \<^verbatim>\<open>catch\<close> blocks do with an error that has a message: \<^verbatim>\<open>get\<close> returns \<^verbatim>\<open>null\<close>
  and leaves both stores as they were, \<^verbatim>\<open>set\<close> returns \<^verbatim>\<open>false\<close> and changes nothing but
  the error counter.
\<close>

lemma get_catches:
  assumes "enabled c" and "fst (tryGet pf key now c) = Inl e"
  shows "fst (get pf key now c) = None \<and>
         memoryCache (snd (get pf key now c)) = memoryCache c \<and>
         redisClient (snd (get pf key now c)) = redisClient c \<and>
         errors (stats (snd (get pf key now c))) = Suc (errors (stats c))"
  using assms
  by (auto simp: get_def tryGet_def memoryGet_def countError_def countHit_def countMiss_def
           split: prod.splits sum.splits option.splits if_splits)

lemma set_cache_catches:
  assumes "enabled c" and "fst (trySet pf key v (orDefault customTtl (ttl c)) now c) = Inl e"
    and "hasMessage e"
  shows "set_cache pf key v customTtl now c = (Inr False, countError c)"
  using assms
  by (auto simp: set_cache_def trySet_def Let_def
           split: prod.splits sum.splits option.splits if_splits)



section \<open>Properties of the queue service\<close>

lemma cacheReads_append: "cacheReads (xs @ ys) = cacheReads xs @ cacheReads ys"
  by (induction xs rule: cacheReads.induct) simp_all

lemma cacheWrites_append: "cacheWrites (xs @ ys) = cacheWrites xs @ cacheWrites ys"
  by (induction xs rule: cacheWrites.induct) simp_all

lemma cacheReads_Bridge: "cacheReads (map Bridge effs) = []"
  by (induction effs) simp_all

lemma cacheWrites_Bridge: "cacheWrites (map Bridge effs) = []"
  by (induction effs) simp_all

text \<open>
  C2. A job with a non-empty conversation history whose bridge call succeeds does not
  read the cache, but it writes its answer to the cache under the key of its query:
  the call of \<^verbatim>\<open>cacheService.set\<close> in \<^verbatim>\<open>_processJob\<close> has no guard on the history.
\<close>

theorem processJob_stores_contextual_answer:
  assumes "data_query d = JString q"
    and "data_conversationHistory d = Some h" and "h \<noteq> []"
    and "snd (executeQuery maxR worker (JString q) (data_userId d) h) = Some (Inr result)"
  shows "cacheReads (fst (fst (processJob pf maxR worker nowGet nowSet d c))) = [] \<and>
         cacheWrites (fst (fst (processJob pf maxR worker nowGet nowSet d c)))
           = [(generateKey pf q, \<lparr>answer = answer result, contexts = contexts result\<rparr>)] \<and>
         snd (processJob pf maxR worker nowGet nowSet d c)
           = snd (set_cache pf (generateKey pf q)
                    \<lparr>answer = answer result, contexts = contexts result\<rparr> None nowSet c)"
  using assms
  by (cases "executeQuery maxR worker (JString q) (data_userId d) h")
     (simp add: processJob_def noHistory_def historyOrEmpty_def Let_def
        cacheReads_append cacheWrites_append cacheReads_Bridge cacheWrites_Bridge
        split: prod.splits sum.splits)


lemmas job_eval = processJob_def noHistory_def historyOrEmpty_def executeQuery_def
  validateQuery_def trim_def isWhiteSpace_def retryLoop.simps set_cache_def trySet_def
  get_def tryGet_def memoryGet_def newCacheService_def orDefault_def countSet_def
  countHit_def countMiss_def map_of_mapSet

theorem processJob_stores_contextual_answer_witness:
  "\<forall>md5.
     snd (executeQuery 1 (\<lambda>k. Answer \<lparr>answer = [0x41], contexts = []\<rparr>)
            (JString [0x68, 0x69]) [0x75] [([0x75], [0x78])])
       = Some (Inr \<lparr>answer = [0x41], contexts = []\<rparr>) \<and>
     cacheWrites (fst (fst (processJob
        \<lparr>toLowerCase = asciiLowerCase, md5hex = md5,
          jsonStringify = (\<lambda>v::payload. Inr [0x7B, 0x7D]), jsonParse = (\<lambda>s. None)\<rparr>
        1 (\<lambda>k. Answer \<lparr>answer = [0x41], contexts = []\<rparr>) 1000 2000
        \<lparr>data_query = JString [0x68, 0x69], data_userId = [0x75],
          data_sessionId = GivenSession [0x73],
          data_conversationHistory = Some [([0x75], [0x78])], data_timestamp = 0\<rparr>
        (newCacheService None 3600 True))))
       = [(generateKey
             \<lparr>toLowerCase = asciiLowerCase, md5hex = md5,
               jsonStringify = (\<lambda>v::payload. Inr [0x7B, 0x7D]), jsonParse = (\<lambda>s. None)\<rparr>
             [0x68, 0x69],
           \<lparr>answer = [0x41], contexts = []\<rparr>)]"
proof (intro allI)
  fix md5 :: "jsstring \<Rightarrow> jsstring"
  let ?pf = "\<lparr>toLowerCase = asciiLowerCase, md5hex = md5,
               jsonStringify = (\<lambda>v::payload. Inr [0x7B, 0x7D]),
               jsonParse = (\<lambda>s. None :: payload option)\<rparr>"
  let ?d = "\<lparr>data_query = JString [0x68, 0x69], data_userId = [0x75],
              data_sessionId = GivenSession [0x73],
              data_conversationHistory = Some [([0x75], [0x78])], data_timestamp = 0\<rparr>"
  let ?w = "\<lambda>k::nat. Answer \<lparr>answer = [0x41], contexts = []\<rparr>"
  have e: "snd (executeQuery 1 ?w (JString [0x68, 0x69]) (data_userId ?d) [([0x75], [0x78])])
             = Some (Inr \<lparr>answer = [0x41], contexts = []\<rparr>)"
    by (simp add: executeQuery_def validateQuery_def trim_def isWhiteSpace_def retryLoop.simps)
  have "cacheWrites (fst (fst (processJob ?pf 1 ?w 1000 2000 ?d (newCacheService None 3600 True))))
       = [(generateKey ?pf [0x68, 0x69], \<lparr>answer = [0x41], contexts = []\<rparr>)]"
    using processJob_stores_contextual_answer
      [of ?d "[0x68, 0x69]" "[([0x75], [0x78])]" 1 ?w "\<lparr>answer = [0x41], contexts = []\<rparr>"
          ?pf 1000 2000 "newCacheService None 3600 True", OF _ _ _ e]
    by simp
  with e show "snd (executeQuery 1 ?w (JString [0x68, 0x69]) [0x75] [([0x75], [0x78])])
       = Some (Inr \<lparr>answer = [0x41], contexts = []\<rparr>) \<and>
     cacheWrites (fst (fst (processJob ?pf 1 ?w 1000 2000 ?d (newCacheService None 3600 True))))
       = [(generateKey ?pf [0x68, 0x69], \<lparr>answer = [0x41], contexts = []\<rparr>)]"
    by simp
qed

text \<open>
  The consequence: a later job with the same query and no history is answered from the
  cache with the answer that was computed under the other conversation's history.
\<close>

lemma contextual_answer_served_to_plain_query:
  "\<forall>md5.
     snd (fst (processJob
        \<lparr>toLowerCase = asciiLowerCase, md5hex = md5,
          jsonStringify = (\<lambda>v::payload. Inr [0x7B, 0x7D]), jsonParse = (\<lambda>s. None)\<rparr>
        1 (\<lambda>k. Answer \<lparr>answer = [0x42], contexts = []\<rparr>) 3000 4000
        \<lparr>data_query = JString [0x68, 0x69], data_userId = [0x76],
          data_sessionId = GivenSession [0x74],
          data_conversationHistory = Some [], data_timestamp = 0\<rparr>
        (snd (processJob
          \<lparr>toLowerCase = asciiLowerCase, md5hex = md5,
            jsonStringify = (\<lambda>v::payload. Inr [0x7B, 0x7D]), jsonParse = (\<lambda>s. None)\<rparr>
          1 (\<lambda>k. Answer \<lparr>answer = [0x41], contexts = []\<rparr>) 1000 2000
          \<lparr>data_query = JString [0x68, 0x69], data_userId = [0x75],
            data_sessionId = GivenSession [0x73],
            data_conversationHistory = Some [([0x75], [0x78])], data_timestamp = 0\<rparr>
          (newCacheService None 3600 True)))))
     = Some (Inr \<lparr>result_answer = [0x41], result_contexts = [], cached = True,
                  result_userId = [0x76], result_sessionId = GivenSession [0x74]\<rparr>)"
  by (simp add: job_eval Let_def)



section \<open>Properties of the chat queue\<close>

lemma add_without_processor:
  "processor mq = None \<Longrightarrow>
   \<exists>j. fst (add d os now mq) = (Returns j, [Stored (job_id j)]) \<and> state j = Waiting \<and>
       returnvalue j = None \<and> failedReason j = None"
  by (auto simp: add_def Let_def split: option.splits prod.splits)

lemma addCatch_returns:
  "fst (fst (addCatch mq j m evs)) = Returns j' \<Longrightarrow>
   state j' = Failed \<and> failedReason j' = Some m \<and> job_id j' = job_id j \<and>
   snd (fst (addCatch mq j m evs)) = evs @ [EmittedFailed (job_id j)]"
  by (auto simp: addCatch_def Let_def split: option.splits)

lemma add_with_processor:
  assumes "processor mq = Some f" and "fst (fst (add d os now mq)) = Returns j"
  shows "(state j = Completed \<and> returnvalue j \<noteq> None \<or>
          state j = Failed \<and> failedReason j \<noteq> None) \<and>
         ProcessorSettled (job_id j) \<in> set (snd (fst (add d os now mq)))"
  using assms
  by (auto simp: add_def Let_def split: option.splits prod.splits settle.splits if_splits
           dest!: addCatch_returns)

lemma add_processor_pending:
  assumes "processor mq = Some f" and "\<And>j. f j = NeverSettles"
  shows "fst (fst (add d os now mq)) = NeverReturns"
  using assms
  by (auto simp: add_def Let_def split: option.splits prod.splits settle.splits)

lemma add_processor_settles:
  assumes "processor mq = Some f" and "\<And>j. f j \<noteq> NeverSettles"
    and "completedHandler mq = None" and "failedHandler mq = None"
  shows "\<exists>j. fst (fst (add d os now mq)) = Returns j"
proof -
  obtain jid counter where jc:
    "(case opts_jobId os of
        None \<Rightarrow> (Generated (Suc (jobCounter mq)), Suc (jobCounter mq))
      | Some s \<Rightarrow>
          if s = [] then (Generated (Suc (jobCounter mq)), Suc (jobCounter mq))
          else (CustomId s, jobCounter mq)) = (jid, counter)"
    by (cases "case opts_jobId os of
        None \<Rightarrow> (Generated (Suc (jobCounter mq)), Suc (jobCounter mq))
      | Some s \<Rightarrow>
          if s = [] then (Generated (Suc (jobCounter mq)), Suc (jobCounter mq))
          else (CustomId s, jobCounter mq)") blast
  let ?j = "\<lparr>job_id = jid, data = d, opts = os, timestamp = now, attemptsMade = 0,
             state = Active, returnvalue = None, failedReason = None\<rparr>"
  show ?thesis
  proof (cases "f ?j")
    case (Completes r)
    then show ?thesis
      using assms(1,3,4) jc
      by (simp add: add_def Let_def emitCompleted_def)
  next
    case (Throws m)
    then show ?thesis
      using assms(1,3,4) jc
      by (simp add: add_def Let_def addCatch_def emitFailed_def)
  next
    case NeverSettles
    then show ?thesis using assms(2) by simp
  qed
qed

lemma bullAdd_returns:
  "\<exists>j. fst (bullAdd d os now bq) = (Returns j, [Stored (job_id j)]) \<and> state j = Waiting"
  by (auto simp: bullAdd_def Let_def split: option.splits prod.splits)

lemma addJob_is_queueAdd:
  assumes "sub_query sub \<noteq> JUndefined" and "sub_query sub \<noteq> JNull"
  shows "addJob t sub os now q = queueAdd (jobDataOf sub now) (jobOptionsOf t os) now q"
  using assms
  by (simp add: addJob_def split: prod.splits completion.splits)

lemma fst_queueAdd_Bull: "fst (queueAdd d os now (BullQueue bq)) = fst (bullAdd d os now bq)"
  by (simp add: queueAdd_def split: prod.splits)

lemma fst_queueAdd_Mock: "fst (queueAdd d os now (MockQueue mq)) = fst (add d os now mq)"
  by (simp add: queueAdd_def split: prod.splits)

text \<open>
  C9, as the code has it. \<^verbatim>\<open>addJob\<close> with a query that has a \<^verbatim>\<open>length\<close>. With the
  Redis-backed queue, and with the in-memory queue when no processor is registered, the
  call succeeds and returns the job after the bookkeeping only, in state \<open>waiting\<close>. With
  the in-memory queue and a processor registered: a returned job is already completed or
  failed and the processor's promise was awaited before the return; the call succeeds
  whenever the processor settles and no event handler is registered (none is, for the
  in-memory queue); and when the processor never settles, the call never returns.
\<close>

theorem addJob_returns_handle:
  assumes "sub_query sub \<noteq> JUndefined" and "sub_query sub \<noteq> JNull"
  shows
    "(\<forall>bq. q = BullQueue bq \<longrightarrow>
        (\<exists>j. fst (addJob t sub os now q) = (Returns j, [Stored (job_id j)]) \<and>
             state j = Waiting)) \<and>
     (\<forall>mq. q = MockQueue mq \<and> processor mq = None \<longrightarrow>
        (\<exists>j. fst (addJob t sub os now q) = (Returns j, [Stored (job_id j)]) \<and>
             state j = Waiting)) \<and>
     (\<forall>mq f. q = MockQueue mq \<and> processor mq = Some f \<longrightarrow>
        (\<forall>j. fst (fst (addJob t sub os now q)) = Returns j \<longrightarrow>
           (state j = Completed \<and> returnvalue j \<noteq> None \<or>
            state j = Failed \<and> failedReason j \<noteq> None) \<and>
           ProcessorSettled (job_id j) \<in> set (snd (fst (addJob t sub os now q)))) \<and>
        ((\<forall>j. f j \<noteq> NeverSettles) \<and> completedHandler mq = None \<and> failedHandler mq = None
           \<longrightarrow> (\<exists>j. fst (fst (addJob t sub os now q)) = Returns j)) \<and>
        ((\<forall>j. f j = NeverSettles) \<longrightarrow> fst (fst (addJob t sub os now q)) = NeverReturns))"
proof (intro conjI allI impI)
  fix bq assume "q = BullQueue bq"
  then show "\<exists>j. fst (addJob t sub os now q) = (Returns j, [Stored (job_id j)]) \<and>
                 state j = Waiting"
    using bullAdd_returns[of "jobDataOf sub now" "jobOptionsOf t os" now bq]
    by (simp add: addJob_is_queueAdd[OF assms] fst_queueAdd_Bull)
next
  fix mq assume "q = MockQueue mq \<and> processor mq = None"
  then show "\<exists>j. fst (addJob t sub os now q) = (Returns j, [Stored (job_id j)]) \<and>
                 state j = Waiting"
    using add_without_processor[of mq "jobDataOf sub now" "jobOptionsOf t os" now]
    by (auto simp: addJob_is_queueAdd[OF assms] fst_queueAdd_Mock)
next
  fix mq f j
  assume a: "q = MockQueue mq \<and> processor mq = Some f"
    and r: "fst (fst (addJob t sub os now q)) = Returns j"
  from a r have r': "fst (fst (add (jobDataOf sub now) (jobOptionsOf t os) now mq)) = Returns j"
    by (simp add: addJob_is_queueAdd[OF assms] fst_queueAdd_Mock)
  from a have p: "processor mq = Some f" by simp
  show "state j = Completed \<and> returnvalue j \<noteq> None \<or>
        state j = Failed \<and> failedReason j \<noteq> None"
    using add_with_processor[OF p r'] by simp
  show "ProcessorSettled (job_id j) \<in> set (snd (fst (addJob t sub os now q)))"
    using add_with_processor[OF p r'] a
    by (simp add: addJob_is_queueAdd[OF assms] fst_queueAdd_Mock)
next
  fix mq f
  assume a: "q = MockQueue mq \<and> processor mq = Some f"
    and s: "(\<forall>j. f j \<noteq> NeverSettles) \<and> completedHandler mq = None \<and> failedHandler mq = None"
  show "\<exists>j. fst (fst (addJob t sub os now q)) = Returns j"
    using add_processor_settles[of mq f "jobDataOf sub now" "jobOptionsOf t os" now] a s
    by (simp add: addJob_is_queueAdd[OF assms] fst_queueAdd_Mock)
next
  fix mq f
  assume a: "q = MockQueue mq \<and> processor mq = Some f" and n: "\<forall>j. f j = NeverSettles"
  show "fst (fst (addJob t sub os now q)) = NeverReturns"
    using add_processor_pending[of mq f "jobDataOf sub now" "jobOptionsOf t os" now] a n
    by (simp add: addJob_is_queueAdd[OF assms] fst_queueAdd_Mock)
qed

lemmas queue_eval = addJob_def queueAdd_def createChatQueue_def processJobs_def bullAdd_def
  jobDataOf_def jobOptionsOf_def add_def addCatch_def emitCompleted_def emitFailed_def
  historyOrEmpty_def orDefault_def Let_def

text \<open>
  Instances: the Redis-backed queue with the processor registered, the in-memory queue
  without a processor, with a processor that completes, and with one that never settles.
\<close>

theorem addJob_returns_handle_witness:
  "JString [0x68, 0x69] \<noteq> JUndefined \<and> JString [0x68, 0x69] \<noteq> JNull \<and>
   (\<exists>j. fst (addJob 35000
      \<lparr>sub_query = JString [0x68, 0x69], sub_userId = Some [0x75],
        sub_sessionId = Some [0x73], sub_conversationHistory = Some []\<rparr>
      \<lparr>sub_priority = None, sub_timeout = None, sub_jobId = None\<rparr>
      7
      (processJobs (\<lambda>j. Completes \<lparr>answer = [0x41], contexts = []\<rparr>)
         (createChatQueue True)))
      = (Returns j, [Stored (job_id j)]) \<and> state j = Waiting) \<and>
   (\<exists>j. fst (addJob 35000
      \<lparr>sub_query = JString [0x68, 0x69], sub_userId = Some [0x75],
        sub_sessionId = Some [0x73], sub_conversationHistory = Some []\<rparr>
      \<lparr>sub_priority = None, sub_timeout = None, sub_jobId = None\<rparr>
      7
      (createChatQueue False))
      = (Returns (j :: payload job), [Stored (job_id j)]) \<and> state j = Waiting) \<and>
   (\<exists>j. fst (fst (addJob 35000
      \<lparr>sub_query = JString [0x68, 0x69], sub_userId = Some [0x75],
        sub_sessionId = Some [0x73], sub_conversationHistory = Some []\<rparr>
      \<lparr>sub_priority = None, sub_timeout = None, sub_jobId = None\<rparr>
      7
      (processJobs (\<lambda>j. Completes \<lparr>answer = [0x41], contexts = []\<rparr>)
         (createChatQueue False))))
      = Returns j \<and> state j = Completed \<and>
      returnvalue j = Some \<lparr>answer = [0x41], contexts = []\<rparr>) \<and>
   fst (fst (addJob 35000
      \<lparr>sub_query = JString [0x68, 0x69], sub_userId = Some [0x75],
        sub_sessionId = Some [0x73], sub_conversationHistory = Some []\<rparr>
      \<lparr>sub_priority = None, sub_timeout = None, sub_jobId = None\<rparr>
      7
      (processJobs (\<lambda>j. NeverSettles :: payload settle) (createChatQueue False))))
      = NeverReturns"
proof -
  let ?sub = "\<lparr>sub_query = JString [0x68, 0x69], sub_userId = Some [0x75],
                sub_sessionId = Some [0x73], sub_conversationHistory = Some []\<rparr>"
  let ?os = "\<lparr>sub_priority = None, sub_timeout = None, sub_jobId = None\<rparr>"
  let ?done = "\<lambda>j :: payload job. Completes \<lparr>answer = [0x41], contexts = []\<rparr>"
  let ?never = "\<lambda>j :: payload job. NeverSettles :: payload settle"
  have q: "sub_query ?sub \<noteq> JUndefined" "sub_query ?sub \<noteq> JNull" by simp_all
  have a: "\<exists>j. fst (addJob 35000 ?sub ?os 7 (processJobs ?done (createChatQueue True)))
               = (Returns j, [Stored (job_id j)]) \<and> state j = Waiting"
    using addJob_returns_handle[OF q, of "processJobs ?done (createChatQueue True)" 35000 ?os 7]
    by (simp add: createChatQueue_def processJobs_def)
  have b: "\<exists>j. fst (addJob 35000 ?sub ?os 7 (createChatQueue False))
               = (Returns (j :: payload job), [Stored (job_id j)]) \<and> state j = Waiting"
    using addJob_returns_handle
      [OF q, of "createChatQueue False :: payload chatQueue" 35000 ?os 7]
    by (simp add: createChatQueue_def)
  have c: "\<exists>j. fst (fst (addJob 35000 ?sub ?os 7 (processJobs ?done (createChatQueue False))))
               = Returns j \<and> state j = Completed \<and>
               returnvalue j = Some \<lparr>answer = [0x41], contexts = []\<rparr>"
    by (simp add: queue_eval)
  have d: "fst (fst (addJob 35000 ?sub ?os 7 (processJobs ?never (createChatQueue False))))
             = NeverReturns"
    using addJob_returns_handle[OF q, of "processJobs ?never (createChatQueue False)" 35000 ?os 7]
    by (simp add: createChatQueue_def processJobs_def)
  from a b c d show ?thesis by simp
qed


text \<open>
  C9 as stated fails: in the in-memory mode with the processor registered (the server
  calls \<^verbatim>\<open>processJobs\<close> before it listens), \<^verbatim>\<open>addJob\<close> returns the job only after the
  processor ran to completion.
\<close>

theorem addJob_runs_processor_counterexample:
  "fst (addJob 35000
      \<lparr>sub_query = JString [0x68, 0x69], sub_userId = Some [0x75],
        sub_sessionId = Some [0x73], sub_conversationHistory = Some []\<rparr>
      \<lparr>sub_priority = None, sub_timeout = None, sub_jobId = None\<rparr>
      7
      (processJobs (\<lambda>j. Completes \<lparr>answer = [0x41], contexts = []\<rparr>)
         (createChatQueue False)))
   = (Returns
        \<lparr>job_id = Generated 1,
          data = \<lparr>data_query = JString [0x68, 0x69], data_userId = [0x75],
                   data_sessionId = GivenSession [0x73],
                   data_conversationHistory = Some [], data_timestamp = 7\<rparr>,
          opts = \<lparr>priority = 0, opts_timeout = 35000, opts_jobId = None\<rparr>,
          timestamp = 7, attemptsMade = 0, state = Completed,
          returnvalue = Some \<lparr>answer = [0x41], contexts = []\<rparr>, failedReason = None\<rparr>,
      [Stored (Generated 1), ProcessorCalled (Generated 1), ProcessorSettled (Generated 1),
       EmittedCompleted (Generated 1)])"
  by (simp add: queue_eval)


end
